theory Spec2Isabelle
  imports Main
begin

section \<open>Values of the session controller\<close>

text \<open>
  The controller \<^verbatim>\<open>src/unnamed/part_000\<close> is TypeScript running on Node. Strings
  are modelled as \<^typ>\<open>string\<close> (a non-ASCII character is its UTF-8 bytes; none of
  those bytes is an ASCII digit or letter, so the regular expression of the duration
  parser reads both representations alike).
\<close>

text \<open>
  The numbers the controller computes are non-negative integers held in IEEE-754
  doubles: \<^verbatim>\<open>Number(match[1])\<close> of a digit string and its product with a factor
  of the unit table. A double holds every integer below \<open>2^53\<close> exactly; a larger one
  is rounded to 53 significant bits, ties to even, and overflows to \<open>Infinity\<close> from
  \<open>2^1024\<close> on.
\<close>

datatype jsnum = Fin nat | Infinity

fun bitlen :: "nat \<Rightarrow> nat" where
  "bitlen n = (if n = 0 then 0 else Suc (bitlen (n div 2)))"

declare bitlen.simps [simp del]

definition f64_of_nat :: "nat \<Rightarrow> jsnum" where
  "f64_of_nat n =
     (let k = bitlen n in
      if k \<le> 53 then Fin n
      else
        let e = k - 53;
            q = n div 2 ^ e;
            r = n mod 2 ^ e;
            h = 2 ^ (e - 1);
            q' = (if h < r \<or> (r = h \<and> odd q) then q + 1 else q);
            m = q' * 2 ^ e
        in if 2 ^ 1024 \<le> m then Infinity else Fin m)"

text \<open>\<^verbatim>\<open>value * map[unit]\<close>: the product of two doubles, the right one a positive
  integer of the unit table.\<close>

definition js_times :: "jsnum \<Rightarrow> nat \<Rightarrow> jsnum" where
  "js_times v f = (case v of Fin n \<Rightarrow> f64_of_nat (n * f) | Infinity \<Rightarrow> Infinity)"

section \<open>The duration parser\<close>

text \<open>
  \<^verbatim>\<open>
  function parseExpiresToMs(expires: string) {
    const match = expires.match(/^(\d+)([smhd])$/);
    if (!match) {
      throw new Error(`Invalid expires format: ${expires}`);
    }
    const value = Number(match[1]);
    const unit = match[2] as "s" | "m" | "h" | "d";
    const map = { s: 1000, m: 60_000, h: 3_600_000, d: 86_400_000 };
    return value * map[unit];
  }
  \<close>
\<close>

datatype error =
    Error string
  | JsonWebTokenError
  | TokenExpiredError

definition is_digit :: "char \<Rightarrow> bool" where
  "is_digit c = (c \<in> set ''0123456789'')"

definition is_unit_letter :: "char \<Rightarrow> bool" where
  "is_unit_letter c = (c \<in> set ''smhd'')"

text \<open>The regular expression \<^verbatim>\<open>/^(\d+)([smhd])$/\<close>: the longest run of digits from
  the start of the input (a unit letter is no digit, so no shorter run can match), one
  unit letter, the end of the input. The result is the two groups.\<close>

definition match_expires :: "string \<Rightarrow> (string \<times> char) option" where
  "match_expires expires =
     (let ds = takeWhile is_digit expires;
          rest = dropWhile is_digit expires
      in case rest of
           [u] \<Rightarrow> if ds \<noteq> [] \<and> is_unit_letter u then Some (ds, u) else None
         | _ \<Rightarrow> None)"

definition digit_val :: "char \<Rightarrow> nat" where
  "digit_val c = of_char c - 48"

definition decimal :: "string \<Rightarrow> nat" where
  "decimal ds = foldl (\<lambda>a c. 10 * a + digit_val c) 0 ds"

text \<open>\<^verbatim>\<open>Number(match[1])\<close> on a string of decimal digits: the double nearest to the
  number written.\<close>

definition Number :: "string \<Rightarrow> jsnum" where
  "Number ds = f64_of_nat (decimal ds)"

definition unit_map :: "char \<Rightarrow> nat" where
  "unit_map u =
     (if u = CHR ''s'' then 1000
      else if u = CHR ''m'' then 60000
      else if u = CHR ''h'' then 3600000
      else 86400000)"

definition parseExpiresToMs :: "string \<Rightarrow> error + jsnum" where
  "parseExpiresToMs expires =
     (case match_expires expires of
        None \<Rightarrow> Inl (Error (''Invalid expires format: '' @ expires))
      | Some (ds, unit) \<Rightarrow> Inr (js_times (Number ds) (unit_map unit)))"

text \<open>The format as the specification words it: an integer written in digits, then one
  unit letter of \<open>s\<close>, \<open>m\<close>, \<open>h\<close>, \<open>d\<close>.\<close>

definition duration_format :: "string \<Rightarrow> bool" where
  "duration_format s =
     (s \<noteq> [] \<and> butlast s \<noteq> [] \<and> list_all is_digit (butlast s) \<and> is_unit_letter (last s))"

section \<open>Objects, user records and the user projection\<close>

text \<open>
  A field of a user record holds a scalar. An object is the list of its own enumerable
  properties in insertion order. Objects live in a heap and are handed around by
  reference, as in JavaScript; a new object is allocated at the end of the heap.
\<close>

datatype jsval = JUndefined | JNull | JBool bool | JNum int | JStr string

type_synonym obj = "(string \<times> jsval) list"

type_synonym heap = "obj list"

type_synonym ref = nat

text \<open>Reading a property: \<^verbatim>\<open>undefined\<close> when the object has no such property.\<close>

definition property :: "obj \<Rightarrow> string \<Rightarrow> jsval" where
  "property ob k = (case map_of ob k of None \<Rightarrow> JUndefined | Some v \<Rightarrow> v)"

text \<open>A reference of a running program is always live; the empty object stands for a
  dangling one only to keep the function total.\<close>

definition deref :: "heap \<Rightarrow> ref \<Rightarrow> obj" where
  "deref h r = (if r < length h then h ! r else [])"

definition alloc :: "heap \<Rightarrow> obj \<Rightarrow> heap \<times> ref" where
  "alloc h ob = (h @ [ob], length h)"

text \<open>
  \<^verbatim>\<open>
  function sanitizeUser(user: any) {
    if (!user) return user;
    const { password, resetPasswordToken, confirmationToken, ...safeUser } = user;
    return safeUser;
  }
  \<close>
  The argument is what the user store returns: \<^verbatim>\<open>null\<close> (\<open>None\<close>) or a reference
  to a user object. The rest pattern copies the remaining own properties, in order,
  into a new object.
\<close>

definition rest_without :: "string list \<Rightarrow> obj \<Rightarrow> obj" where
  "rest_without ks ob = filter (\<lambda>(k, v). k \<notin> set ks) ob"

definition sanitizeUser :: "heap \<Rightarrow> ref option \<Rightarrow> heap \<times> ref option" where
  "sanitizeUser h user =
     (case user of
        None \<Rightarrow> (h, user)
      | Some r \<Rightarrow>
          (let (h', safeUser) =
                 alloc h (rest_without
                   [''password'', ''resetPasswordToken'', ''confirmationToken''] (deref h r))
           in (h', Some safeUser)))"

section \<open>Renewal tokens\<close>

text \<open>
  Modelled from the spec: the library \<^verbatim>\<open>jsonwebtoken\<close> (\<^verbatim>\<open>jwt.sign\<close>,
  \<^verbatim>\<open>jwt.verify\<close>) is imported by the controller and is not part of the repository.
  Section 4.2 of the specification gives its contract: signing takes a payload, a secret
  and an expiry duration and produces a signed token string; verifying takes a token
  string and a secret and returns the decoded payload or fails with one of signature
  invalid, expired, malformed. The model is symbolic: a token string is either a token
  signed over a payload under a secret with an expiry time (in seconds), or any other
  string. The lifetime of a duration string is the duration parser's reading of it, in
  whole seconds.

  Signing can throw. The library reads the duration with the package \<^verbatim>\<open>ms\<close>, which
  reads no string longer than 100 characters; \<^verbatim>\<open>jwt.sign\<close> then throws an
  \<^verbatim>\<open>Error\<close> about \<^verbatim>\<open>expiresIn\<close>. Of the spellings the package reads, the model knows
  those of the duration parser, which are the only ones a loaded module holds.
\<close>

datatype jwt = Signed obj string nat | Opaque string

definition lifetime_seconds :: "string \<Rightarrow> nat" where
  "lifetime_seconds expiresIn =
     (case parseExpiresToMs expiresIn of
        Inr (Fin ms) \<Rightarrow> ms div 1000
      | _ \<Rightarrow> 0)"

definition readable_timespan :: "string \<Rightarrow> bool" where
  "readable_timespan expiresIn = (length expiresIn \<le> 100 \<and> match_expires expiresIn \<noteq> None)"

text \<open>The message of the error: \<^verbatim>\<open>"expiresIn" should be a number of seconds or string
  representing a timespan eg: "1d", "20h", 60\<close>.\<close>

definition msg_expiresIn :: string where
  "msg_expiresIn =
     [CHR 0x22] @ ''expiresIn'' @ [CHR 0x22] @
     '' should be a number of seconds or string representing a timespan eg: '' @
     [CHR 0x22] @ ''1d'' @ [CHR 0x22] @ '', '' @ [CHR 0x22] @ ''20h'' @ [CHR 0x22] @ '', 60''"

definition jwt_sign :: "obj \<Rightarrow> string \<Rightarrow> string \<Rightarrow> nat \<Rightarrow> error + jwt" where
  "jwt_sign payload secret expiresIn now =
     (if readable_timespan expiresIn
      then Inr (Signed payload secret (now + lifetime_seconds expiresIn))
      else Inl (Error msg_expiresIn))"

definition jwt_verify :: "jwt \<Rightarrow> string \<Rightarrow> nat \<Rightarrow> error + obj" where
  "jwt_verify token secret now =
     (case token of
        Opaque s \<Rightarrow> Inl JsonWebTokenError
      | Signed payload key exp \<Rightarrow>
          if key \<noteq> secret then Inl JsonWebTokenError
          else if exp \<le> now then Inl TokenExpiredError
          else Inr payload)"

section \<open>Module constants\<close>

text \<open>
  \<^verbatim>\<open>
  const REFRESH_SECRET = process.env.REFRESH_JWT_SECRET || "change-me";
  const ACCESS_EXPIRES_IN = process.env.ACCESS_TOKEN_EXPIRES || "15m";
  const REFRESH_EXPIRES_IN = process.env.REFRESH_TOKEN_EXPIRES || "7d";
  const REFRESH_COOKIE_NAME = "refreshToken";
  const refreshMaxAge = parseExpiresToMs(REFRESH_EXPIRES_IN);
  \<close>
  An environment variable is unset (\<open>None\<close>) or a string. Loading the module evaluates
  these constants once; it fails when the duration parser throws.
\<close>

record process_env =
  REFRESH_JWT_SECRET :: "string option"
  ACCESS_TOKEN_EXPIRES :: "string option"
  REFRESH_TOKEN_EXPIRES :: "string option"

text \<open>\<^verbatim>\<open>x || d\<close> on an environment variable: the default when it is unset or empty.\<close>

definition or_default :: "string option \<Rightarrow> string \<Rightarrow> string" where
  "or_default x d = (case x of None \<Rightarrow> d | Some s \<Rightarrow> if s = [] then d else s)"

record module_consts =
  REFRESH_SECRET :: string
  ACCESS_EXPIRES_IN :: string
  REFRESH_EXPIRES_IN :: string
  refreshMaxAge :: jsnum

definition REFRESH_COOKIE_NAME :: string where
  "REFRESH_COOKIE_NAME = ''refreshToken''"

definition load_module :: "process_env \<Rightarrow> error + module_consts" where
  "load_module env =
     (let secret = or_default (REFRESH_JWT_SECRET env) ''change-me'';
          access = or_default (ACCESS_TOKEN_EXPIRES env) ''15m'';
          refresh = or_default (REFRESH_TOKEN_EXPIRES env) ''7d''
      in case parseExpiresToMs refresh of
           Inl e \<Rightarrow> Inl e
         | Inr ms \<Rightarrow>
             Inr \<lparr>REFRESH_SECRET = secret, ACCESS_EXPIRES_IN = access,
                  REFRESH_EXPIRES_IN = refresh, refreshMaxAge = ms\<rparr>)"

section \<open>Request context and collaborators\<close>

text \<open>
  The request carries the declared protocol, the connection-is-secure signal, the two
  body fields \<^verbatim>\<open>identifier\<close> and \<^verbatim>\<open>password\<close> (typed \<^verbatim>\<open>string\<close> in the source; \<open>None\<close> when
  the body has no such field) and the cookies sent by the client. The response is what
  the handler wrote: \<^verbatim>\<open>ctx.badRequest(msg)\<close>, \<^verbatim>\<open>ctx.unauthorized(msg)\<close>, or an
  assignment to \<^verbatim>\<open>ctx.body\<close>; and the cookies it set.
\<close>

record request =
  protocol :: string
  secure :: bool
  body_identifier :: "string option"
  body_password :: "string option"
  cookies :: "(string \<times> jwt) list"

record cookie =
  name :: string
  val :: jwt
  httpOnly :: bool
  secure_flag :: bool
  sameSite :: string
  path :: string
  maxAge :: jsnum

datatype outcome =
    BadRequest string
  | Unauthorized string
  | SessionBody string "ref option"
  | OkBody

record ctx =
  request :: request
  response :: "outcome option"
  set_cookies :: "cookie list"

definition badRequest :: "ctx \<Rightarrow> string \<Rightarrow> ctx" where
  "badRequest c msg = c\<lparr>response := Some (BadRequest msg)\<rparr>"

definition unauthorized :: "ctx \<Rightarrow> string \<Rightarrow> ctx" where
  "unauthorized c msg = c\<lparr>response := Some (Unauthorized msg)\<rparr>"

definition set_body :: "ctx \<Rightarrow> outcome \<Rightarrow> ctx" where
  "set_body c b = c\<lparr>response := Some b\<rparr>"

definition cookies_get :: "ctx \<Rightarrow> string \<Rightarrow> jwt option" where
  "cookies_get c n = map_of (cookies (request c)) n"

definition cookies_set :: "ctx \<Rightarrow> cookie \<Rightarrow> ctx" where
  "cookies_set c ck = c\<lparr>set_cookies := set_cookies c @ [ck]\<rparr>"

text \<open>
  The collaborators are outside the repository and enter as they are called: the table
  of users behind \<^verbatim>\<open>strapi.db.query("plugin::users-permissions.user")\<close>, the
  password check \<^verbatim>\<open>validatePassword(password, hash)\<close>, the access-token authority
  \<^verbatim>\<open>jwt.issue(payload, {expiresIn})\<close> (which stamps the current time), the clock in
  seconds, the logger, and the cookie jar of the response. Each returns a value; none of
  them fails: a store that is down or a password check that rejects its arguments is not
  an input of the controller. The body of the request is an object on every request: the
  middleware list of \<^verbatim>\<open>src/config/server.ts\<close> installs \<^verbatim>\<open>strapi::body\<close> before the
  handlers run, so reading the two fields from it does not throw.
\<close>

record world =
  users :: "obj list"
  validatePassword :: "string \<Rightarrow> jsval \<Rightarrow> bool"
  jwt_issue :: "obj \<Rightarrow> string \<Rightarrow> nat \<Rightarrow> string"
  clock :: nat
  objects :: heap
  logged :: "string list"

definition log_info :: "world \<Rightarrow> string \<Rightarrow> world" where
  "log_info w line = w\<lparr>logged := logged w @ [line]\<rparr>"

definition show_bool :: "bool \<Rightarrow> string" where
  "show_bool b = (if b then ''true'' else ''false'')"

text \<open>\<^verbatim>\<open>findOne({ where })\<close>: the first matching row as a new object, or
  \<^verbatim>\<open>null\<close>.\<close>

definition findOne :: "world \<Rightarrow> (obj \<Rightarrow> bool) \<Rightarrow> world \<times> ref option" where
  "findOne w cond =
     (case find cond (users w) of
        None \<Rightarrow> (w, None)
      | Some row \<Rightarrow>
          (let (h', r) = alloc (objects w) row in (w\<lparr>objects := h'\<rparr>, Some r)))"

text \<open>\<^verbatim>\<open>{ $or: [{ email: identifier }, { username: identifier }] }\<close>\<close>

definition where_identifier :: "string \<Rightarrow> obj \<Rightarrow> bool" where
  "where_identifier ident row =
     (map_of row ''email'' = Some (JStr ident) \<or> map_of row ''username'' = Some (JStr ident))"

text \<open>\<^verbatim>\<open>{ id: payload.id }\<close>\<close>

definition where_id :: "jsval \<Rightarrow> obj \<Rightarrow> bool" where
  "where_id v row = (map_of row ''id'' = Some v)"

text \<open>\<^verbatim>\<open>!x\<close> on an optional string: true when it is undefined or empty.\<close>

definition falsy :: "string option \<Rightarrow> bool" where
  "falsy x = (case x of None \<Rightarrow> True | Some s \<Rightarrow> s = [])"

definition str :: "string option \<Rightarrow> string" where
  "str x = (case x of None \<Rightarrow> [] | Some s \<Rightarrow> s)"

text \<open>\<^verbatim>\<open>!token\<close> on the cookie read: true when the cookie is missing or its value is
  the empty string.\<close>

definition no_token :: "jwt option \<Rightarrow> bool" where
  "no_token t = (case t of None \<Rightarrow> True | Some (Opaque s) \<Rightarrow> s = [] | Some _ \<Rightarrow> False)"

definition tok :: "jwt option \<Rightarrow> jwt" where
  "tok t = (case t of None \<Rightarrow> Opaque [] | Some j \<Rightarrow> j)"

text \<open>\<^verbatim>\<open>ctx.request.protocol === "https" || ctx.request.secure === true\<close>\<close>

definition isHttps :: "request \<Rightarrow> bool" where
  "isHttps rq = (protocol rq = ''https'' \<or> secure rq = True)"

section \<open>Messages\<close>

text \<open>Line 128: the UTF-8 bytes of the literal (in English, "identifier, password required").\<close>

definition msg_required :: string where
  "msg_required =
     ''identifier, password '' @ [CHR 0xED, CHR 0x95, CHR 0x84, CHR 0xEC, CHR 0x88,
     CHR 0x98]"

text \<open>Line 144: the UTF-8 bytes of the literal (in English, "wrong id/password").\<close>

definition msg_unknown_identifier :: string where
  "msg_unknown_identifier =
     [CHR 0xEC, CHR 0x9E, CHR 0x98, CHR 0xEB, CHR 0xAA, CHR 0xBB, CHR 0xEB, CHR 0x90,
     CHR 0x9C] @ '' '' @ [CHR 0xEC, CHR 0x95, CHR 0x84, CHR 0xEC, CHR 0x9D, CHR 0xB4,
     CHR 0xEB, CHR 0x94, CHR 0x94] @ ''/'' @ [CHR 0xEB, CHR 0xB9, CHR 0x84, CHR 0xEB,
     CHR 0xB0, CHR 0x80, CHR 0xEB, CHR 0xB2, CHR 0x88, CHR 0xED, CHR 0x98, CHR 0xB8,
     CHR 0xEC, CHR 0x9E, CHR 0x85, CHR 0xEB, CHR 0x8B, CHR 0x88, CHR 0xEB, CHR 0x8B,
     CHR 0xA4] @ ''.''"

text \<open>Line 158: the UTF-8 bytes of the literal (in English, "wrong id/password").\<close>

definition msg_wrong_password :: string where
  "msg_wrong_password =
     [CHR 0xEC, CHR 0x9E, CHR 0x98, CHR 0xEB, CHR 0xAA, CHR 0xBB, CHR 0xEB, CHR 0x90,
     CHR 0x9C] @ '' '' @ [CHR 0xEC, CHR 0x95, CHR 0x84, CHR 0xEC, CHR 0x9D, CHR 0xB4,
     CHR 0xEB, CHR 0x94, CHR 0x94] @ ''/'' @ [CHR 0xEB, CHR 0xB9, CHR 0x84, CHR 0xEB,
     CHR 0xB0, CHR 0x80, CHR 0xEB, CHR 0xB2, CHR 0x88, CHR 0xED, CHR 0x98, CHR 0xB8,
     CHR 0xEC, CHR 0x9E, CHR 0x85, CHR 0xEB, CHR 0x8B, CHR 0x88, CHR 0xEB, CHR 0x8B,
     CHR 0xA4] @ ''.''"

text \<open>Line 223: the UTF-8 bytes of the literal (in English, "no refresh token").\<close>

definition msg_no_token :: string where
  "msg_no_token =
     ''refresh token '' @ [CHR 0xEC, CHR 0x97, CHR 0x86, CHR 0xEC, CHR 0x9D, CHR 0x8C]"

text \<open>Line 233: the UTF-8 bytes of the literal (in English, "not a proper refresh token").\<close>

definition msg_wrong_type :: string where
  "msg_wrong_type =
     [CHR 0xEC, CHR 0x98, CHR 0xAC, CHR 0xEB, CHR 0xB0, CHR 0x94, CHR 0xEB, CHR 0xA5,
     CHR 0xB4, CHR 0xEC, CHR 0xA7, CHR 0x80] @ '' '' @ [CHR 0xEC, CHR 0x95, CHR 0x8A,
     CHR 0xEC, CHR 0x9D, CHR 0x80] @ '' '' @ [CHR 0xEB, CHR 0xA6, CHR 0xAC, CHR 0xED,
     CHR 0x94, CHR 0x84, CHR 0xEB, CHR 0xA0, CHR 0x88, CHR 0xEC, CHR 0x8B, CHR 0x9C] @
     '' '' @ [CHR 0xED, CHR 0x86, CHR 0xA0, CHR 0xED, CHR 0x81, CHR 0xB0]"

text \<open>Line 241: the UTF-8 bytes of the literal (in English, "the user does not exist").\<close>

definition msg_no_user :: string where
  "msg_no_user =
     [CHR 0xEC, CHR 0x9C, CHR 0xA0, CHR 0xEC, CHR 0xA0, CHR 0x80, CHR 0xEA, CHR 0xB0,
     CHR 0x80] @ '' '' @ [CHR 0xEC, CHR 0xA1, CHR 0xB4, CHR 0xEC, CHR 0x9E, CHR 0xAC,
     CHR 0xED, CHR 0x95, CHR 0x98, CHR 0xEC, CHR 0xA7, CHR 0x80] @ '' '' @ [CHR 0xEC,
     CHR 0x95, CHR 0x8A, CHR 0xEC, CHR 0x8A, CHR 0xB5, CHR 0xEB, CHR 0x8B, CHR 0x88,
     CHR 0xEB, CHR 0x8B, CHR 0xA4] @ ''.''"

text \<open>Line 255: the UTF-8 bytes of the literal (in English, "expired or invalid refresh token").\<close>

definition msg_expired_or_invalid :: string where
  "msg_expired_or_invalid =
     [CHR 0xEB, CHR 0xA7, CHR 0x8C, CHR 0xEB, CHR 0xA3, CHR 0x8C, CHR 0xEB, CHR 0x90,
     CHR 0x98, CHR 0xEC, CHR 0x97, CHR 0x88, CHR 0xEA, CHR 0xB1, CHR 0xB0, CHR 0xEB,
     CHR 0x82, CHR 0x98] @ '' '' @ [CHR 0xEC, CHR 0x9C, CHR 0xA0, CHR 0xED, CHR 0x9A,
     CHR 0xA8, CHR 0xED, CHR 0x95, CHR 0x98, CHR 0xEC, CHR 0xA7, CHR 0x80] @ '' '' @
     [CHR 0xEC, CHR 0x95, CHR 0x8A, CHR 0xEC, CHR 0x9D, CHR 0x80] @ '' '' @ [CHR 0xEB,
     CHR 0xA6, CHR 0xAC, CHR 0xED, CHR 0x94, CHR 0x84, CHR 0xEB, CHR 0xA0, CHR 0x88,
     CHR 0xEC, CHR 0x8B, CHR 0x9C] @ '' '' @ [CHR 0xED, CHR 0x86, CHR 0xA0, CHR 0xED,
     CHR 0x81, CHR 0xB0]"

section \<open>The three handlers\<close>

text \<open>
  A handler returns \<open>Inr\<close> of the world and the context it leaves, or \<open>Inl\<close> of an
  exception that escapes it. \<^verbatim>\<open>customLogin\<close> and \<^verbatim>\<open>logout\<close> have no \<^verbatim>\<open>try\<close>:
  what a step of theirs throws escapes the handler. In \<^verbatim>\<open>customLogin\<close> that step
  is \<^verbatim>\<open>jwt.sign\<close>.
\<close>

text \<open>\<^verbatim>\<open>customLogin\<close>, lines 110 to 213.\<close>

definition customLogin :: "module_consts \<Rightarrow> world \<Rightarrow> ctx \<Rightarrow> error + world \<times> ctx" where
  "customLogin M w0 c =
     (let w1 = log_info w0
            (''HTTPS CHECK (login) protocol='' @ protocol (request c) @ '' secure=''
              @ show_bool (secure (request c)));
          ident = body_identifier (request c);
          passw = body_password (request c)
      in if falsy ident \<or> falsy passw then Inr (w1, badRequest c msg_required)
         else
           (case findOne w1 (where_identifier (str ident)) of
              (w2, None) \<Rightarrow> Inr (w2, unauthorized c msg_unknown_identifier)
            | (w2, Some user) \<Rightarrow>
                if \<not> validatePassword w2 (str passw) (property (deref (objects w2) user) ''password'')
                then Inr (w2, unauthorized c msg_wrong_password)
                else
                  (let accessToken =
                         jwt_issue w2 [(''id'', property (deref (objects w2) user) ''id'')]
                           (ACCESS_EXPIRES_IN M) (clock w2)
                   in case jwt_sign
                             [(''id'', property (deref (objects w2) user) ''id''),
                              (''type'', JStr ''refresh'')]
                             (REFRESH_SECRET M) (REFRESH_EXPIRES_IN M) (clock w2) of
                        Inl e \<Rightarrow> Inl e
                      | Inr refreshToken \<Rightarrow>
                          (let https = isHttps (request c);
                               c1 = cookies_set c
                                      \<lparr>name = REFRESH_COOKIE_NAME, val = refreshToken,
                                       httpOnly = True, secure_flag = https,
                                       sameSite = (if https then ''none'' else ''lax''),
                                       path = ''/'', maxAge = refreshMaxAge M\<rparr>;
                               (h3, safeUser) = sanitizeUser (objects w2) (Some user)
                           in Inr (w2\<lparr>objects := h3\<rparr>,
                                   set_body c1 (SessionBody accessToken safeUser))))))"

text \<open>\<^verbatim>\<open>refreshToken\<close>, lines 219 to 257. The body of the \<^verbatim>\<open>try\<close> block is a
  function of its own; the handler turns whatever it throws into the response of the
  \<^verbatim>\<open>catch\<close> block.\<close>

definition refreshToken_try :: "module_consts \<Rightarrow> world \<Rightarrow> ctx \<Rightarrow> jwt \<Rightarrow> error + world \<times> ctx" where
  "refreshToken_try M w c token =
     (case jwt_verify token (REFRESH_SECRET M) (clock w) of
        Inl e \<Rightarrow> Inl e
      | Inr payload \<Rightarrow>
          if property payload ''type'' \<noteq> JStr ''refresh''
          then Inr (w, unauthorized c msg_wrong_type)
          else
            (case findOne w (where_id (property payload ''id'')) of
               (w1, None) \<Rightarrow> Inr (w1, unauthorized c msg_no_user)
             | (w1, Some user) \<Rightarrow>
                 (let newAccessToken =
                        jwt_issue w1 [(''id'', property (deref (objects w1) user) ''id'')]
                          (ACCESS_EXPIRES_IN M) (clock w1);
                      (h2, safeUser) = sanitizeUser (objects w1) (Some user)
                  in Inr (w1\<lparr>objects := h2\<rparr>,
                          set_body c (SessionBody newAccessToken safeUser)))))"

definition refreshToken :: "module_consts \<Rightarrow> world \<Rightarrow> ctx \<Rightarrow> error + world \<times> ctx" where
  "refreshToken M w c =
     (let token = cookies_get c REFRESH_COOKIE_NAME
      in if no_token token then Inr (w, unauthorized c msg_no_token)
         else
           (case refreshToken_try M w c (tok token) of
              Inl e \<Rightarrow> Inr (w, unauthorized c msg_expired_or_invalid)
            | Inr res \<Rightarrow> Inr res))"

text \<open>\<^verbatim>\<open>logout\<close>, lines 263 to 289.\<close>

definition logout :: "module_consts \<Rightarrow> world \<Rightarrow> ctx \<Rightarrow> error + world \<times> ctx" where
  "logout M w0 c =
     (let w1 = log_info w0
            (''HTTPS CHECK (logout) protocol='' @ protocol (request c) @ '' secure=''
              @ show_bool (secure (request c)));
          https = isHttps (request c);
          c1 = cookies_set c
                 \<lparr>name = REFRESH_COOKIE_NAME, val = Opaque [],
                  httpOnly = True, secure_flag = https,
                  sameSite = (if https then ''none'' else ''lax''),
                  path = ''/'', maxAge = Fin 0\<rparr>
      in Inr (w1, set_body c1 OkBody))"

text \<open>What a handler wrote to the response, and the cookies it left set; \<open>None\<close> and
  the empty list when an exception escaped.\<close>

definition written :: "error + world \<times> ctx \<Rightarrow> outcome option" where
  "written res = (case res of Inl e \<Rightarrow> None | Inr (w, c) \<Rightarrow> response c)"

definition cookies_after :: "error + world \<times> ctx \<Rightarrow> cookie list" where
  "cookies_after res = (case res of Inl e \<Rightarrow> [] | Inr (w, c) \<Rightarrow> set_cookies c)"

section \<open>A concrete deployment\<close>

text \<open>
  One registered user, a password check that compares with a tagged copy of the
  password, an access-token authority that writes the lifetime into the token, and the
  module loaded with a secret and the default lifetimes.
\<close>

definition alice :: obj where
  "alice =
     [(''id'', JNum 1), (''username'', JStr ''alice''), (''email'', JStr ''alice@example.com''),
      (''password'', JStr ''hash:wonderland''), (''resetPasswordToken'', JNull),
      (''confirmationToken'', JStr ''c0nf1rm''), (''blocked'', JBool False)]"

definition world0 :: world where
  "world0 =
     \<lparr>users = [alice],
      validatePassword = (\<lambda>p h. h = JStr (''hash:'' @ p)),
      jwt_issue = (\<lambda>payload expiresIn now. ''access:'' @ expiresIn),
      clock = 1000, objects = [], logged = []\<rparr>"

definition env0 :: process_env where
  "env0 =
     \<lparr>REFRESH_JWT_SECRET = Some ''s3cret'', ACCESS_TOKEN_EXPIRES = None,
      REFRESH_TOKEN_EXPIRES = None\<rparr>"

definition module0 :: module_consts where
  "module0 =
     \<lparr>REFRESH_SECRET = ''s3cret'', ACCESS_EXPIRES_IN = ''15m'', REFRESH_EXPIRES_IN = ''7d'',
      refreshMaxAge = Fin 604800000\<rparr>"




text \<open>A request over a proxy-terminated HTTPS connection with the two body fields and a
  cookie jar, and the context it arrives in.\<close>

definition request0 :: "string option \<Rightarrow> string option \<Rightarrow> (string \<times> jwt) list \<Rightarrow> request" where
  "request0 ident passw jar =
     \<lparr>protocol = ''https'', secure = False, body_identifier = ident, body_password = passw,
      cookies = jar\<rparr>"

definition ctx0 :: "request \<Rightarrow> ctx" where
  "ctx0 rq = \<lparr>request = rq, response = None, set_cookies = []\<rparr>"

text \<open>The renewal token the login of \<open>alice\<close> at time 1000 mints: it expires seven days
  later.\<close>

definition alice_token :: jwt where
  "alice_token = Signed [(''id'', JNum 1), (''type'', JStr ''refresh'')] ''s3cret'' 605800"

section \<open>The duration parser: properties\<close>

lemma bitlen_le: "n < 2 ^ k \<Longrightarrow> bitlen n \<le> k"
proof (induction k arbitrary: n)
  case 0
  then show ?case by (simp add: bitlen.simps)
next
  case (Suc k)
  from Suc.prems have "n div 2 < 2 ^ k" by simp
  then have "bitlen (n div 2) \<le> k" by (rule Suc.IH)
  then show ?case by (subst bitlen.simps) simp
qed

lemma f64_of_nat_exact: "n < 2 ^ 53 \<Longrightarrow> f64_of_nat n = Fin n"
  using bitlen_le [of n 53] by (simp add: f64_of_nat_def Let_def)

lemma unit_not_digit: "is_unit_letter u \<Longrightarrow> \<not> is_digit u"
  by (auto simp: is_unit_letter_def is_digit_def)

lemma match_expires_append:
  assumes "ds \<noteq> []" and "list_all is_digit ds" and "is_unit_letter u"
  shows "match_expires (ds @ [u]) = Some (ds, u)"
proof -
  have all: "\<And>x. x \<in> set ds \<Longrightarrow> is_digit x"
    using assms(2) by (simp add: list_all_iff)
  have nd: "\<not> is_digit u" using assms(3) by (rule unit_not_digit)
  have t: "takeWhile is_digit (ds @ [u]) = ds"
    using all nd by (simp add: takeWhile_append2)
  have d: "dropWhile is_digit (ds @ [u]) = [u]"
    using all nd by (simp add: dropWhile_append2)
  show ?thesis
    unfolding match_expires_def t d using assms(1,3) by simp
qed

lemma match_expires_Some:
  assumes "match_expires s = Some (ds, u)"
  shows "s = ds @ [u] \<and> ds \<noteq> [] \<and> list_all is_digit ds \<and> is_unit_letter u"
proof -
  from assms have d: "dropWhile is_digit s = [u]" and t: "takeWhile is_digit s = ds"
    and ne: "ds \<noteq> []" and un: "is_unit_letter u"
    by (auto simp: match_expires_def Let_def split: list.splits if_splits)
  have "s = takeWhile is_digit s @ dropWhile is_digit s" by simp
  then have "s = ds @ [u]" using d t by simp
  moreover have "list_all is_digit ds"
    using t by (auto simp: list_all_iff dest: set_takeWhileD)
  ultimately show ?thesis using ne un by simp
qed

lemma duration_format_append:
  "duration_format (ds @ [u]) \<longleftrightarrow> ds \<noteq> [] \<and> list_all is_digit ds \<and> is_unit_letter u"
  by (simp add: duration_format_def)

lemma duration_format_match: "duration_format s \<longleftrightarrow> match_expires s \<noteq> None"
proof
  assume f: "duration_format s"
  then have "s = butlast s @ [last s]" by (simp add: duration_format_def)
  moreover from f have "match_expires (butlast s @ [last s]) = Some (butlast s, last s)"
    by (intro match_expires_append) (simp_all add: duration_format_def)
  ultimately show "match_expires s \<noteq> None" by simp
next
  assume "match_expires s \<noteq> None"
  then obtain ds u where "match_expires s = Some (ds, u)" by auto
  then have "s = ds @ [u] \<and> ds \<noteq> [] \<and> list_all is_digit ds \<and> is_unit_letter u"
    by (rule match_expires_Some)
  then show "duration_format s" by (auto simp: duration_format_append)
qed

lemma parse_digits_unit:
  assumes "ds \<noteq> []" and "list_all is_digit ds" and "is_unit_letter u"
    and "decimal ds * unit_map u < 2 ^ 53"
  shows "parseExpiresToMs (ds @ [u]) = Inr (Fin (decimal ds * unit_map u))"
proof -
  have "0 < unit_map u" by (simp add: unit_map_def)
  then have "decimal ds \<le> decimal ds * unit_map u" by simp
  with assms(4) have small: "decimal ds < 2 ^ 53" by linarith
  have "Number ds = Fin (decimal ds)"
    unfolding Number_def using small by (rule f64_of_nat_exact)
  then have "js_times (Number ds) (unit_map u) = Fin (decimal ds * unit_map u)"
    using assms(4) by (simp add: js_times_def f64_of_nat_exact)
  then show ?thesis
    using match_expires_append [OF assms(1-3)] by (simp add: parseExpiresToMs_def)
qed

text \<open>
  C4 (as amended). The specification's claim is that every string of the form
  integer-unit yields integer times unit factor. The code computes in doubles, so the
  claim holds exactly where the product is below \<open>2^53\<close>: for every non-empty string
  of digits \<open>ds\<close> whose value times the factor of the unit stays below \<open>2^53\<close>,
  \<open>parseExpiresToMs\<close> returns that product in milliseconds, with the factors 1000
  for \<open>s\<close>, 60000 for \<open>m\<close>, 3600000 for \<open>h\<close> and 86400000 for \<open>d\<close>; every string of
  the format yields a number and no error; and every string that is not of the format
  fails with the error \<open>Invalid expires format\<close> (no partial parsing, no default).
\<close>

theorem parseExpiresToMs_exact_in_safe_range:
  "(ds \<noteq> [] \<and> list_all is_digit ds \<longrightarrow>
      (decimal ds * 1000 < 2 ^ 53 \<longrightarrow>
         parseExpiresToMs (ds @ ''s'') = Inr (Fin (decimal ds * 1000))) \<and>
      (decimal ds * 60000 < 2 ^ 53 \<longrightarrow>
         parseExpiresToMs (ds @ ''m'') = Inr (Fin (decimal ds * 60000))) \<and>
      (decimal ds * 3600000 < 2 ^ 53 \<longrightarrow>
         parseExpiresToMs (ds @ ''h'') = Inr (Fin (decimal ds * 3600000))) \<and>
      (decimal ds * 86400000 < 2 ^ 53 \<longrightarrow>
         parseExpiresToMs (ds @ ''d'') = Inr (Fin (decimal ds * 86400000)))) \<and>
   (duration_format s \<longrightarrow> (\<exists>v. parseExpiresToMs s = Inr v)) \<and>
   (\<not> duration_format s \<longrightarrow>
      parseExpiresToMs s = Inl (Error (''Invalid expires format: '' @ s)))"
proof (intro conjI impI)
  assume "duration_format s"
  then show "\<exists>v. parseExpiresToMs s = Inr v"
    by (auto simp: duration_format_match parseExpiresToMs_def)
next
  assume "\<not> duration_format s"
  then show "parseExpiresToMs s = Inl (Error (''Invalid expires format: '' @ s))"
    by (cases "match_expires s") (simp_all add: duration_format_match parseExpiresToMs_def)
next
  assume a: "ds \<noteq> [] \<and> list_all is_digit ds" and b: "decimal ds * 1000 < 2 ^ 53"
  show "parseExpiresToMs (ds @ ''s'') = Inr (Fin (decimal ds * 1000))"
    using parse_digits_unit [of ds "CHR ''s''"] a b by (simp add: is_unit_letter_def unit_map_def)
next
  assume a: "ds \<noteq> [] \<and> list_all is_digit ds" and b: "decimal ds * 60000 < 2 ^ 53"
  show "parseExpiresToMs (ds @ ''m'') = Inr (Fin (decimal ds * 60000))"
    using parse_digits_unit [of ds "CHR ''m''"] a b by (simp add: is_unit_letter_def unit_map_def)
next
  assume a: "ds \<noteq> [] \<and> list_all is_digit ds" and b: "decimal ds * 3600000 < 2 ^ 53"
  show "parseExpiresToMs (ds @ ''h'') = Inr (Fin (decimal ds * 3600000))"
    using parse_digits_unit [of ds "CHR ''h''"] a b by (simp add: is_unit_letter_def unit_map_def)
next
  assume a: "ds \<noteq> [] \<and> list_all is_digit ds" and b: "decimal ds * 86400000 < 2 ^ 53"
  show "parseExpiresToMs (ds @ ''d'') = Inr (Fin (decimal ds * 86400000))"
    using parse_digits_unit [of ds "CHR ''d''"] a b by (simp add: is_unit_letter_def unit_map_def)
qed

theorem parseExpiresToMs_exact_witness:
  "parseExpiresToMs ''15m'' = Inr (Fin 900000) \<and>
   parseExpiresToMs ''7d'' = Inr (Fin 604800000) \<and>
   parseExpiresToMs ''7 days'' = Inl (Error ''Invalid expires format: 7 days'')"
proof -
  have d15: "decimal ''15'' = 15" and d7: "decimal ''7'' = 7"
    by (simp_all add: decimal_def digit_val_def)
  have nf: "\<not> duration_format ''7 days''"
    by (simp add: duration_format_def is_unit_letter_def is_digit_def)
  have dg: "list_all is_digit ''15''" "list_all is_digit ''7''"
    by (simp_all add: is_digit_def)
  from parseExpiresToMs_exact_in_safe_range [of "''15''" "''7 days''"] dg(1) nf d15
  have a: "parseExpiresToMs ''15m'' = Inr (Fin 900000)"
    and c: "parseExpiresToMs ''7 days'' = Inl (Error ''Invalid expires format: 7 days'')"
    by simp_all
  from parseExpiresToMs_exact_in_safe_range [of "''7''" "''7 days''"] dg(2) d7
  have b: "parseExpiresToMs ''7d'' = Inr (Fin 604800000)" by simp
  from a b c show ?thesis by simp
qed

text \<open>
  The claim as the specification states it fails above the exact range of a double: the
  string \<open>9007199254740993s\<close> is of the format, its integer times 1000 is
  \<open>9007199254740993000\<close>, and the parser returns \<open>9007199254740992000\<close>, since
  \<^verbatim>\<open>Number("9007199254740993")\<close> is \<open>9007199254740992\<close>.
\<close>

lemma cx_match:
  "match_expires ''9007199254740993s'' = Some (''9007199254740993'', CHR ''s'')"
  by (simp add: match_expires_def is_digit_def is_unit_letter_def)

lemma cx_decimal: "decimal ''9007199254740993'' = 9007199254740993"
  by (simp add: decimal_def digit_val_def)

lemma cx_bitlen1: "bitlen 9007199254740993 = 54"
  by (simp add: bitlen.simps)

lemma cx_round1: "f64_of_nat 9007199254740993 = Fin 9007199254740992"
  by (simp add: f64_of_nat_def cx_bitlen1 Let_def)

lemma cx_bitlen2: "bitlen 9007199254740992000 = 63"
  by (simp add: bitlen.simps)

lemma cx_round2: "f64_of_nat 9007199254740992000 = Fin 9007199254740992000"
  by (simp add: f64_of_nat_def cx_bitlen2 Let_def)

theorem parseExpiresToMs_rounds_large_counterexample:
  "duration_format (''9007199254740993'' @ ''s'') \<and>
   decimal ''9007199254740993'' * 1000 = 9007199254740993000 \<and>
   parseExpiresToMs (''9007199254740993'' @ ''s'') = Inr (Fin 9007199254740992000) \<and>
   parseExpiresToMs (''9007199254740993'' @ ''s'')
     \<noteq> Inr (Fin (decimal ''9007199254740993'' * 1000))"
proof -
  have f: "duration_format (''9007199254740993'' @ ''s'')"
    by (simp add: duration_format_def is_digit_def is_unit_letter_def)
  have p: "parseExpiresToMs (''9007199254740993'' @ ''s'') = Inr (Fin 9007199254740992000)"
    using cx_match
    by (simp add: parseExpiresToMs_def Number_def cx_decimal cx_round1 js_times_def
        unit_map_def cx_round2)
  show ?thesis using f p by (simp add: cx_decimal)
qed

section \<open>What the handlers compute\<close>

text \<open>The handlers with the heap steps carried out: one equation each.\<close>

lemma map_of_rest_without:
  "map_of (rest_without ks ob) = map_of ob |` (- set ks)"
  by (induction ob) (auto simp: rest_without_def restrict_map_def fun_eq_iff)

lemma sanitizeUser_Some:
  "sanitizeUser h (Some r) =
     (h @ [rest_without [''password'', ''resetPasswordToken'', ''confirmationToken''] (deref h r)],
      Some (length h))"
  by (simp add: sanitizeUser_def alloc_def)

lemma deref_append_old: "a < length h \<Longrightarrow> deref (h @ xs) a = deref h a"
  by (simp add: deref_def nth_append)

lemma deref_append_new: "deref (h @ [ob]) (length h) = ob"
  by (simp add: deref_def)

lemma deref_append_new3: "deref (h @ [ob, ob']) (Suc (length h)) = ob'"
  by (simp add: deref_def nth_append)

lemma findOne_result:
  "findOne w cond =
     (case find cond (users w) of
        None \<Rightarrow> (w, None)
      | Some row \<Rightarrow> (w\<lparr>objects := objects w @ [row]\<rparr>, Some (length (objects w))))"
  by (simp add: findOne_def alloc_def split: option.splits)

lemma customLogin_result:
  "customLogin M w c =
     (let w1 = log_info w
            (''HTTPS CHECK (login) protocol='' @ protocol (request c) @ '' secure=''
              @ show_bool (secure (request c)));
          ident = body_identifier (request c);
          passw = body_password (request c)
      in if falsy ident \<or> falsy passw then Inr (w1, badRequest c msg_required)
         else
           (case find (where_identifier (str ident)) (users w) of
              None \<Rightarrow> Inr (w1, unauthorized c msg_unknown_identifier)
            | Some row \<Rightarrow>
                if \<not> validatePassword w (str passw) (property row ''password'')
                then Inr (w1\<lparr>objects := objects w @ [row]\<rparr>, unauthorized c msg_wrong_password)
                else
                  (case jwt_sign [(''id'', property row ''id''), (''type'', JStr ''refresh'')]
                          (REFRESH_SECRET M) (REFRESH_EXPIRES_IN M) (clock w) of
                     Inl e \<Rightarrow> Inl e
                   | Inr signed \<Rightarrow>
                       Inr (w1\<lparr>objects := objects w @
                               [row, rest_without
                                  [''password'', ''resetPasswordToken'', ''confirmationToken'']
                                  row]\<rparr>,
                            set_body
                              (cookies_set c
                                 \<lparr>name = REFRESH_COOKIE_NAME, val = signed,
                                  httpOnly = True, secure_flag = isHttps (request c),
                                  sameSite = (if isHttps (request c) then ''none'' else ''lax''),
                                  path = ''/'', maxAge = refreshMaxAge M\<rparr>)
                              (SessionBody
                                 (jwt_issue w [(''id'', property row ''id'')]
                                    (ACCESS_EXPIRES_IN M) (clock w))
                                 (Some (Suc (length (objects w)))))))))"
  by (simp add: customLogin_def findOne_result log_info_def sanitizeUser_Some Let_def
      deref_append_new split: option.splits sum.splits)

lemma refreshToken_result:
  "refreshToken M w c =
     (let token = cookies_get c REFRESH_COOKIE_NAME
      in if no_token token then Inr (w, unauthorized c msg_no_token)
         else
           (case jwt_verify (tok token) (REFRESH_SECRET M) (clock w) of
              Inl e \<Rightarrow> Inr (w, unauthorized c msg_expired_or_invalid)
            | Inr payload \<Rightarrow>
                if property payload ''type'' \<noteq> JStr ''refresh''
                then Inr (w, unauthorized c msg_wrong_type)
                else
                  (case find (where_id (property payload ''id'')) (users w) of
                     None \<Rightarrow> Inr (w, unauthorized c msg_no_user)
                   | Some row \<Rightarrow>
                       Inr (w\<lparr>objects := objects w @
                              [row, rest_without
                                 [''password'', ''resetPasswordToken'', ''confirmationToken''] row]\<rparr>,
                            set_body c
                              (SessionBody
                                 (jwt_issue w [(''id'', property row ''id'')]
                                    (ACCESS_EXPIRES_IN M) (clock w))
                                 (Some (Suc (length (objects w)))))))))"
  by (simp add: refreshToken_def refreshToken_try_def findOne_result sanitizeUser_Some Let_def
      deref_append_new split: option.splits sum.splits)

lemma logout_result:
  "logout M w c =
     Inr (log_info w
            (''HTTPS CHECK (logout) protocol='' @ protocol (request c) @ '' secure=''
              @ show_bool (secure (request c))),
          c\<lparr>set_cookies := set_cookies c @
                 [\<lparr>name = ''refreshToken'', val = Opaque [], httpOnly = True,
                   secure_flag = isHttps (request c),
                   sameSite = (if isHttps (request c) then ''none'' else ''lax''),
                   path = ''/'', maxAge = Fin 0\<rparr>],
             response := Some OkBody\<rparr>)"
  by (simp add: logout_def Let_def cookies_set_def set_body_def REFRESH_COOKIE_NAME_def)

section \<open>Facts about the concrete deployment\<close>

lemma parse_7d: "parseExpiresToMs ''7d'' = Inr (Fin 604800000)"
  using parse_digits_unit [of "''7''" "CHR ''d''"]
  by (simp add: is_digit_def is_unit_letter_def unit_map_def decimal_def digit_val_def)

lemma lifetime_7d: "lifetime_seconds ''7d'' = 604800"
  by (simp add: lifetime_seconds_def parse_7d)

lemma readable_7d: "readable_timespan ''7d''"
  by (simp add: readable_timespan_def match_expires_def is_digit_def is_unit_letter_def)

lemma load_module0: "load_module env0 = Inr module0"
  by (simp add: load_module_def env0_def module0_def or_default_def parse_7d)

lemma messages_distinct:
  "distinct [msg_no_token, msg_expired_or_invalid, msg_wrong_type, msg_no_user]"
  by (simp add: msg_no_token_def msg_expired_or_invalid_def msg_wrong_type_def msg_no_user_def)

section \<open>Renewing the access credential\<close>

text \<open>
  C1. The outcomes of the renew operation are exactly these. If the renewal cookie is
  absent (no cookie of that name, or one with the empty value: the code's \<^verbatim>\<open>!token\<close>
  does not tell them apart) it returns unauthorized. If verification of the token fails
  (the \<^verbatim>\<open>catch\<close> block receives any failure: malformed, bad signature, expired) it
  returns unauthorized with the "expired or invalid" message. If the token verifies and
  its \<^verbatim>\<open>type\<close> is not \<^verbatim>\<open>"refresh"\<close> it returns unauthorized with the wrong-purpose
  message. If no user has the id of the payload it returns unauthorized. On every other
  input it succeeds with a session body holding a new access token for that id. The four
  messages are pairwise different, so the outcomes can be told apart.
\<close>

theorem refreshToken_outcomes:
  "(no_token (cookies_get c REFRESH_COOKIE_NAME) \<longrightarrow>
      refreshToken M w c = Inr (w, unauthorized c msg_no_token)) \<and>
   (\<not> no_token (cookies_get c REFRESH_COOKIE_NAME) \<and>
    jwt_verify (tok (cookies_get c REFRESH_COOKIE_NAME)) (REFRESH_SECRET M) (clock w) = Inl e \<longrightarrow>
      refreshToken M w c = Inr (w, unauthorized c msg_expired_or_invalid)) \<and>
   (\<not> no_token (cookies_get c REFRESH_COOKIE_NAME) \<and>
    jwt_verify (tok (cookies_get c REFRESH_COOKIE_NAME)) (REFRESH_SECRET M) (clock w) = Inr payload \<and>
    property payload ''type'' \<noteq> JStr ''refresh'' \<longrightarrow>
      refreshToken M w c = Inr (w, unauthorized c msg_wrong_type)) \<and>
   (\<not> no_token (cookies_get c REFRESH_COOKIE_NAME) \<and>
    jwt_verify (tok (cookies_get c REFRESH_COOKIE_NAME)) (REFRESH_SECRET M) (clock w) = Inr payload \<and>
    property payload ''type'' = JStr ''refresh'' \<and>
    find (where_id (property payload ''id'')) (users w) = None \<longrightarrow>
      refreshToken M w c = Inr (w, unauthorized c msg_no_user)) \<and>
   (\<not> no_token (cookies_get c REFRESH_COOKIE_NAME) \<and>
    jwt_verify (tok (cookies_get c REFRESH_COOKIE_NAME)) (REFRESH_SECRET M) (clock w) = Inr payload \<and>
    property payload ''type'' = JStr ''refresh'' \<and>
    find (where_id (property payload ''id'')) (users w) = Some row \<longrightarrow>
      (\<exists>w'. refreshToken M w c =
         Inr (w', set_body c
                (SessionBody
                   (jwt_issue w [(''id'', property row ''id'')] (ACCESS_EXPIRES_IN M) (clock w))
                   (Some (Suc (length (objects w)))))))) \<and>
   distinct [msg_no_token, msg_expired_or_invalid, msg_wrong_type, msg_no_user]"
  by (simp add: refreshToken_result Let_def messages_distinct del: distinct.simps)

theorem refreshToken_outcomes_witness:
  "written (refreshToken module0 world0 (ctx0 (request0 None None [])))
     = Some (Unauthorized msg_no_token) \<and>
   written (refreshToken module0 world0
       (ctx0 (request0 None None [(''refreshToken'', Opaque ''garbage'')])))
     = Some (Unauthorized msg_expired_or_invalid) \<and>
   written (refreshToken module0 world0
       (ctx0 (request0 None None
          [(''refreshToken'', Signed [(''id'', JNum 1)] ''s3cret'' 605800)])))
     = Some (Unauthorized msg_wrong_type) \<and>
   written (refreshToken module0 world0
       (ctx0 (request0 None None
          [(''refreshToken'',
            Signed [(''id'', JNum 2), (''type'', JStr ''refresh'')] ''s3cret'' 605800)])))
     = Some (Unauthorized msg_no_user) \<and>
   written (refreshToken module0 world0
       (ctx0 (request0 None None [(''refreshToken'', alice_token)])))
     = Some (SessionBody ''access:15m'' (Some 1))"
proof -
  let ?go = "\<lambda>jar. refreshToken module0 world0 (ctx0 (request0 None None jar))"
  have 1: "written (?go []) = Some (Unauthorized msg_no_token)"
    using refreshToken_outcomes [of "ctx0 (request0 None None [])" module0 world0]
    by (simp add: written_def unauthorized_def cookies_get_def ctx0_def request0_def no_token_def)
  have 2: "written (?go [(''refreshToken'', Opaque ''garbage'')])
             = Some (Unauthorized msg_expired_or_invalid)"
    using refreshToken_outcomes
      [of "ctx0 (request0 None None [(''refreshToken'', Opaque ''garbage'')])" module0 world0
          JsonWebTokenError]
    by (simp add: written_def unauthorized_def cookies_get_def ctx0_def request0_def no_token_def
        tok_def jwt_verify_def REFRESH_COOKIE_NAME_def)
  have 3: "written (?go [(''refreshToken'', Signed [(''id'', JNum 1)] ''s3cret'' 605800)])
             = Some (Unauthorized msg_wrong_type)"
    using refreshToken_outcomes
      [of "ctx0 (request0 None None
             [(''refreshToken'', Signed [(''id'', JNum 1)] ''s3cret'' 605800)])" module0 world0
          _ "[(''id'', JNum 1)]"]
    by (simp add: written_def unauthorized_def cookies_get_def ctx0_def request0_def no_token_def
        tok_def jwt_verify_def REFRESH_COOKIE_NAME_def module0_def world0_def property_def)
  have 4: "written (?go [(''refreshToken'',
               Signed [(''id'', JNum 2), (''type'', JStr ''refresh'')] ''s3cret'' 605800)])
             = Some (Unauthorized msg_no_user)"
    using refreshToken_outcomes
      [of "ctx0 (request0 None None
             [(''refreshToken'',
               Signed [(''id'', JNum 2), (''type'', JStr ''refresh'')] ''s3cret'' 605800)])"
          module0 world0 _ "[(''id'', JNum 2), (''type'', JStr ''refresh'')]"]
    by (simp add: written_def unauthorized_def cookies_get_def ctx0_def request0_def no_token_def
        tok_def jwt_verify_def REFRESH_COOKIE_NAME_def module0_def world0_def property_def
        where_id_def alice_def)
  have 5: "written (?go [(''refreshToken'', alice_token)])
             = Some (SessionBody ''access:15m'' (Some 1))"
    using refreshToken_outcomes
      [of "ctx0 (request0 None None [(''refreshToken'', alice_token)])"
          module0 world0 _ "[(''id'', JNum 1), (''type'', JStr ''refresh'')]" alice]
    by (auto simp: written_def set_body_def cookies_get_def ctx0_def request0_def no_token_def
        tok_def jwt_verify_def REFRESH_COOKIE_NAME_def module0_def world0_def property_def
        where_id_def alice_def alice_token_def)
  from 1 2 3 4 5 show ?thesis by simp
qed

section \<open>Successful runs, read backwards\<close>

lemma load_module_Inr:
  assumes "load_module env = Inr M"
  shows "REFRESH_SECRET M = or_default (REFRESH_JWT_SECRET env) ''change-me''"
    and "ACCESS_EXPIRES_IN M = or_default (ACCESS_TOKEN_EXPIRES env) ''15m''"
    and "REFRESH_EXPIRES_IN M = or_default (REFRESH_TOKEN_EXPIRES env) ''7d''"
    and "parseExpiresToMs (or_default (REFRESH_TOKEN_EXPIRES env) ''7d'') = Inr (refreshMaxAge M)"
  using assms by (auto simp: load_module_def Let_def split: sum.splits)

lemma customLogin_success:
  assumes "customLogin M w c = Inr (w', c')" and "response c' = Some (SessionBody a u)"
  shows "\<exists>row.
           \<not> falsy (body_identifier (request c)) \<and> \<not> falsy (body_password (request c)) \<and>
           find (where_identifier (str (body_identifier (request c)))) (users w) = Some row \<and>
           validatePassword w (str (body_password (request c))) (property row ''password'') \<and>
           objects w' = objects w @
             [row, rest_without [''password'', ''resetPasswordToken'', ''confirmationToken''] row] \<and>
           u = Some (Suc (length (objects w))) \<and>
           a = jwt_issue w [(''id'', property row ''id'')] (ACCESS_EXPIRES_IN M) (clock w) \<and>
           jwt_sign [(''id'', property row ''id''), (''type'', JStr ''refresh'')]
               (REFRESH_SECRET M) (REFRESH_EXPIRES_IN M) (clock w) =
             Inr (Signed [(''id'', property row ''id''), (''type'', JStr ''refresh'')]
                    (REFRESH_SECRET M) (clock w + lifetime_seconds (REFRESH_EXPIRES_IN M))) \<and>
           set_cookies c' = set_cookies c @
             [\<lparr>name = REFRESH_COOKIE_NAME,
               val = Signed [(''id'', property row ''id''), (''type'', JStr ''refresh'')]
                       (REFRESH_SECRET M) (clock w + lifetime_seconds (REFRESH_EXPIRES_IN M)),
               httpOnly = True, secure_flag = isHttps (request c),
               sameSite = (if isHttps (request c) then ''none'' else ''lax''),
               path = ''/'', maxAge = refreshMaxAge M\<rparr>]"
  using assms
  by (auto simp: customLogin_result Let_def badRequest_def unauthorized_def set_body_def
      cookies_set_def jwt_sign_def split: if_splits option.splits)

lemma refreshToken_success:
  assumes "refreshToken M w c = Inr (w', c')" and "response c' = Some (SessionBody a u)"
  shows "\<exists>payload row.
           jwt_verify (tok (cookies_get c REFRESH_COOKIE_NAME)) (REFRESH_SECRET M) (clock w)
             = Inr payload \<and>
           find (where_id (property payload ''id'')) (users w) = Some row \<and>
           objects w' = objects w @
             [row, rest_without [''password'', ''resetPasswordToken'', ''confirmationToken''] row] \<and>
           u = Some (Suc (length (objects w)))"
  using assms
  by (auto simp: refreshToken_result Let_def unauthorized_def set_body_def
      split: if_splits option.splits sum.splits)

lemma login_alice:
  "customLogin module0 world0 (ctx0 (request0 (Some ''alice'') (Some ''wonderland'') [])) =
     Inr (world0\<lparr>objects :=
                   [alice, [(''id'', JNum 1), (''username'', JStr ''alice''),
                            (''email'', JStr ''alice@example.com''), (''blocked'', JBool False)]],
                 logged := [''HTTPS CHECK (login) protocol=https secure=false'']\<rparr>,
          \<lparr>request = request0 (Some ''alice'') (Some ''wonderland'') [],
           response = Some (SessionBody ''access:15m'' (Some 1)),
           set_cookies =
             [\<lparr>name = ''refreshToken'', val = alice_token, httpOnly = True, secure_flag = True,
               sameSite = ''none'', path = ''/'', maxAge = Fin 604800000\<rparr>]\<rparr>)"
  by (simp add: customLogin_result Let_def module0_def world0_def ctx0_def request0_def
      falsy_def str_def where_identifier_def alice_def property_def rest_without_def
      log_info_def show_bool_def set_body_def cookies_set_def isHttps_def jwt_sign_def
      readable_7d lifetime_7d alice_token_def REFRESH_COOKIE_NAME_def)

lemma refresh_alice:
  "refreshToken module0 world0 (ctx0 (request0 None None [(''refreshToken'', alice_token)])) =
     Inr (world0\<lparr>objects :=
                   [alice, [(''id'', JNum 1), (''username'', JStr ''alice''),
                            (''email'', JStr ''alice@example.com''), (''blocked'', JBool False)]]\<rparr>,
          \<lparr>request = request0 None None [(''refreshToken'', alice_token)],
           response = Some (SessionBody ''access:15m'' (Some 1)),
           set_cookies = []\<rparr>)"
  by (simp add: refreshToken_result Let_def module0_def world0_def ctx0_def request0_def
      cookies_get_def no_token_def tok_def jwt_verify_def where_id_def alice_def property_def
      rest_without_def set_body_def alice_token_def REFRESH_COOKIE_NAME_def)

section \<open>The user projection\<close>

text \<open>
  C3. For every user record the user projection returns a new object holding the same
  fields with the same values in the same order, except that exactly the three keys
  \<^verbatim>\<open>password\<close>, \<^verbatim>\<open>resetPasswordToken\<close> and \<^verbatim>\<open>confirmationToken\<close> are removed; it
  returns absence unchanged for an absent input; and it does not mutate its input: every
  object that was on the heap, the argument among them, is as it was, and the result is a
  new object. Hence the user of a successful login or refresh response body is the stored
  record without those three fields, and never contains any of them.
\<close>

theorem sanitizeUser_projection:
  "sanitizeUser h None = (h, None) \<and>
   (\<exists>h' s. sanitizeUser h (Some r) = (h', Some s) \<and>
      map_of (deref h' s) =
        map_of (deref h r) |` (- {''password'', ''resetPasswordToken'', ''confirmationToken''}) \<and>
      deref h' s =
        filter (\<lambda>(k, v). k \<noteq> ''password'' \<and> k \<noteq> ''resetPasswordToken'' \<and>
                  k \<noteq> ''confirmationToken'') (deref h r) \<and>
      length h \<le> s \<and>
      (\<forall>a<length h. deref h' a = deref h a)) \<and>
   (customLogin M w c = Inr (w', c') \<and> response c' = Some (SessionBody a u) \<longrightarrow>
      (\<exists>s row. u = Some s \<and>
         find (where_identifier (str (body_identifier (request c)))) (users w) = Some row \<and>
         map_of (deref (objects w') s) =
           map_of row |` (- {''password'', ''resetPasswordToken'', ''confirmationToken''}) \<and>
         dom (map_of (deref (objects w') s)) \<inter>
           {''password'', ''resetPasswordToken'', ''confirmationToken''} = {})) \<and>
   (refreshToken M w c = Inr (w', c') \<and> response c' = Some (SessionBody a u) \<longrightarrow>
      (\<exists>s payload row. u = Some s \<and>
         jwt_verify (tok (cookies_get c REFRESH_COOKIE_NAME)) (REFRESH_SECRET M) (clock w)
           = Inr payload \<and>
         find (where_id (property payload ''id'')) (users w) = Some row \<and>
         map_of (deref (objects w') s) =
           map_of row |` (- {''password'', ''resetPasswordToken'', ''confirmationToken''}) \<and>
         dom (map_of (deref (objects w') s)) \<inter>
           {''password'', ''resetPasswordToken'', ''confirmationToken''} = {}))"
proof (intro conjI impI)
  show "sanitizeUser h None = (h, None)" by (simp add: sanitizeUser_def)
next
  show "\<exists>h' s. sanitizeUser h (Some r) = (h', Some s) \<and>
      map_of (deref h' s) =
        map_of (deref h r) |` (- {''password'', ''resetPasswordToken'', ''confirmationToken''}) \<and>
      deref h' s =
        filter (\<lambda>(k, v). k \<noteq> ''password'' \<and> k \<noteq> ''resetPasswordToken'' \<and>
                  k \<noteq> ''confirmationToken'') (deref h r) \<and>
      length h \<le> s \<and>
      (\<forall>a<length h. deref h' a = deref h a)"
    by (simp add: sanitizeUser_Some deref_append_new deref_append_old map_of_rest_without)
       (simp add: rest_without_def)
next
  assume "customLogin M w c = Inr (w', c') \<and> response c' = Some (SessionBody a u)"
  then obtain row where
    "find (where_identifier (str (body_identifier (request c)))) (users w) = Some row"
    "objects w' = objects w @
       [row, rest_without [''password'', ''resetPasswordToken'', ''confirmationToken''] row]"
    "u = Some (Suc (length (objects w)))"
    using customLogin_success [of M w c w' c' a u] by blast
  then show "\<exists>s row. u = Some s \<and>
         find (where_identifier (str (body_identifier (request c)))) (users w) = Some row \<and>
         map_of (deref (objects w') s) =
           map_of row |` (- {''password'', ''resetPasswordToken'', ''confirmationToken''}) \<and>
         dom (map_of (deref (objects w') s)) \<inter>
           {''password'', ''resetPasswordToken'', ''confirmationToken''} = {}"
    by (auto simp: deref_append_new3 map_of_rest_without)
next
  assume "refreshToken M w c = Inr (w', c') \<and> response c' = Some (SessionBody a u)"
  then obtain payload row where
    "jwt_verify (tok (cookies_get c REFRESH_COOKIE_NAME)) (REFRESH_SECRET M) (clock w)
       = Inr payload"
    "find (where_id (property payload ''id'')) (users w) = Some row"
    "objects w' = objects w @
       [row, rest_without [''password'', ''resetPasswordToken'', ''confirmationToken''] row]"
    "u = Some (Suc (length (objects w)))"
    using refreshToken_success [of M w c w' c' a u] by blast
  then show "\<exists>s payload row. u = Some s \<and>
         jwt_verify (tok (cookies_get c REFRESH_COOKIE_NAME)) (REFRESH_SECRET M) (clock w)
           = Inr payload \<and>
         find (where_id (property payload ''id'')) (users w) = Some row \<and>
         map_of (deref (objects w') s) =
           map_of row |` (- {''password'', ''resetPasswordToken'', ''confirmationToken''}) \<and>
         dom (map_of (deref (objects w') s)) \<inter>
           {''password'', ''resetPasswordToken'', ''confirmationToken''} = {}"
    by (auto simp: deref_append_new3 map_of_rest_without)
qed

theorem sanitizeUser_projection_witness:
  "sanitizeUser [alice] None = ([alice], None) \<and>
   (\<exists>h'. sanitizeUser [alice] (Some 0) = (h', Some 1) \<and>
      deref h' 1 = [(''id'', JNum 1), (''username'', JStr ''alice''),
                    (''email'', JStr ''alice@example.com''), (''blocked'', JBool False)] \<and>
      deref h' 0 = alice) \<and>
   (\<exists>w' c' s.
      customLogin module0 world0 (ctx0 (request0 (Some ''alice'') (Some ''wonderland'') []))
        = Inr (w', c') \<and>
      response c' = Some (SessionBody ''access:15m'' (Some s)) \<and>
      map_of (deref (objects w') s) ''password'' = None \<and>
      map_of (deref (objects w') s) ''resetPasswordToken'' = None \<and>
      map_of (deref (objects w') s) ''confirmationToken'' = None \<and>
      map_of (deref (objects w') s) ''email'' = Some (JStr ''alice@example.com'')) \<and>
   (\<exists>w' c' s.
      refreshToken module0 world0 (ctx0 (request0 None None [(''refreshToken'', alice_token)]))
        = Inr (w', c') \<and>
      response c' = Some (SessionBody ''access:15m'' (Some s)) \<and>
      map_of (deref (objects w') s) ''password'' = None \<and>
      map_of (deref (objects w') s) ''resetPasswordToken'' = None \<and>
      map_of (deref (objects w') s) ''confirmationToken'' = None \<and>
      map_of (deref (objects w') s) ''email'' = Some (JStr ''alice@example.com''))"
proof -
  let ?lc = "ctx0 (request0 (Some ''alice'') (Some ''wonderland'') [])"
  let ?rc = "ctx0 (request0 None None [(''refreshToken'', alice_token)])"
  obtain lw lc' where l: "customLogin module0 world0 ?lc = Inr (lw, lc')"
    and lr: "response lc' = Some (SessionBody ''access:15m'' (Some 1))"
    using login_alice by simp
  obtain rw rc' where r: "refreshToken module0 world0 ?rc = Inr (rw, rc')"
    and rr: "response rc' = Some (SessionBody ''access:15m'' (Some 1))"
    using refresh_alice by simp
  note p = sanitizeUser_projection
    [of "[alice]" 0 module0 world0 ?lc lw lc' "''access:15m''" "Some 1"]
  note q = sanitizeUser_projection
    [of "[alice]" 0 module0 world0 ?rc rw rc' "''access:15m''" "Some 1"]
  have 1: "sanitizeUser [alice] None = ([alice], None)" by (rule p [THEN conjunct1])
  from p [THEN conjunct2, THEN conjunct1]
  obtain h' s where e:
    "sanitizeUser [alice] (Some 0) = (h', Some s) \<and>
      map_of (deref h' s) =
        map_of (deref [alice] 0) |` (- {''password'', ''resetPasswordToken'', ''confirmationToken''}) \<and>
      deref h' s =
        filter (\<lambda>(k, v). k \<noteq> ''password'' \<and> k \<noteq> ''resetPasswordToken'' \<and>
                  k \<noteq> ''confirmationToken'') (deref [alice] 0) \<and>
      length [alice] \<le> s \<and>
      (\<forall>a<length [alice]. deref h' a = deref [alice] a)"
    by (elim exE) (rule that)
  then have s: "sanitizeUser [alice] (Some 0) = (h', Some s)"
    and v: "deref h' s = filter (\<lambda>(k, v). k \<noteq> ''password'' \<and> k \<noteq> ''resetPasswordToken'' \<and>
                  k \<noteq> ''confirmationToken'') (deref [alice] 0)"
    and old: "\<forall>a<length [alice]. deref h' a = deref [alice] a"
    by simp_all
  have s1: "s = 1" using s by (simp add: sanitizeUser_Some)
  have v1: "deref h' 1 = [(''id'', JNum 1), (''username'', JStr ''alice''),
                    (''email'', JStr ''alice@example.com''), (''blocked'', JBool False)]"
    using v s1 by (simp add: deref_def alice_def)
  have o1: "deref h' 0 = alice" using old by (simp add: deref_def)
  have 2: "\<exists>h'. sanitizeUser [alice] (Some 0) = (h', Some 1) \<and>
      deref h' 1 = [(''id'', JNum 1), (''username'', JStr ''alice''),
                    (''email'', JStr ''alice@example.com''), (''blocked'', JBool False)] \<and>
      deref h' 0 = alice"
    using s s1 v1 o1 by (intro exI [of _ h']) simp
  from p [THEN conjunct2, THEN conjunct2, THEN conjunct1, THEN mp, OF conjI, OF l lr]
  obtain s' row where le:
    "Some 1 = Some s' \<and>
     find (where_identifier (str (body_identifier (request ?lc)))) (users world0) = Some row \<and>
     map_of (deref (objects lw) s') =
       map_of row |` (- {''password'', ''resetPasswordToken'', ''confirmationToken''}) \<and>
     dom (map_of (deref (objects lw) s')) \<inter>
       {''password'', ''resetPasswordToken'', ''confirmationToken''} = {}"
    by (elim exE) (rule that)
  then have lf: "find (where_identifier (str (body_identifier (request ?lc)))) (users world0) = Some row"
    and lm: "map_of (deref (objects lw) 1) =
           map_of row |` (- {''password'', ''resetPasswordToken'', ''confirmationToken''})"
    by simp_all
  have lrow: "row = alice"
    using lf by (simp add: ctx0_def request0_def str_def world0_def where_identifier_def alice_def)
  have lv: "map_of (deref (objects lw) 1) ''password'' = None"
    "map_of (deref (objects lw) 1) ''resetPasswordToken'' = None"
    "map_of (deref (objects lw) 1) ''confirmationToken'' = None"
    "map_of (deref (objects lw) 1) ''email'' = Some (JStr ''alice@example.com'')"
    unfolding lm lrow by (simp_all add: alice_def)
  have 3: "\<exists>w' c' s.
      customLogin module0 world0 ?lc = Inr (w', c') \<and>
      response c' = Some (SessionBody ''access:15m'' (Some s)) \<and>
      map_of (deref (objects w') s) ''password'' = None \<and>
      map_of (deref (objects w') s) ''resetPasswordToken'' = None \<and>
      map_of (deref (objects w') s) ''confirmationToken'' = None \<and>
      map_of (deref (objects w') s) ''email'' = Some (JStr ''alice@example.com'')"
    using l lr lv by (intro exI [of _ lw] exI [of _ lc'] exI [of _ 1]) simp
  from q [THEN conjunct2, THEN conjunct2, THEN conjunct2, THEN mp, OF conjI, OF r rr]
  obtain s'' payload row2 where re:
    "Some 1 = Some s'' \<and>
     jwt_verify (tok (cookies_get ?rc REFRESH_COOKIE_NAME)) (REFRESH_SECRET module0)
       (clock world0) = Inr payload \<and>
     find (where_id (property payload ''id'')) (users world0) = Some row2 \<and>
     map_of (deref (objects rw) s'') =
       map_of row2 |` (- {''password'', ''resetPasswordToken'', ''confirmationToken''}) \<and>
     dom (map_of (deref (objects rw) s'')) \<inter>
       {''password'', ''resetPasswordToken'', ''confirmationToken''} = {}"
    by (elim exE) (rule that)
  then have rf: "find (where_id (property payload ''id'')) (users world0) = Some row2"
    and rm: "map_of (deref (objects rw) 1) =
           map_of row2 |` (- {''password'', ''resetPasswordToken'', ''confirmationToken''})"
    by simp_all
  have rrow: "row2 = alice"
    using rf by (simp add: world0_def split: if_splits)
  have rv: "map_of (deref (objects rw) 1) ''password'' = None"
    "map_of (deref (objects rw) 1) ''resetPasswordToken'' = None"
    "map_of (deref (objects rw) 1) ''confirmationToken'' = None"
    "map_of (deref (objects rw) 1) ''email'' = Some (JStr ''alice@example.com'')"
    unfolding rm rrow by (simp_all add: alice_def)
  have 4: "\<exists>w' c' s.
      refreshToken module0 world0 ?rc = Inr (w', c') \<and>
      response c' = Some (SessionBody ''access:15m'' (Some s)) \<and>
      map_of (deref (objects w') s) ''password'' = None \<and>
      map_of (deref (objects w') s) ''resetPasswordToken'' = None \<and>
      map_of (deref (objects w') s) ''confirmationToken'' = None \<and>
      map_of (deref (objects w') s) ''email'' = Some (JStr ''alice@example.com'')"
    using r rr rv by (intro exI [of _ rw] exI [of _ rc'] exI [of _ 1]) simp
  from 1 2 3 4 show ?thesis by (intro conjI)
qed

section \<open>Establishing a session\<close>

text \<open>
  C2. For every configured renewal-token lifetime string (the environment variable, or
  \<^verbatim>\<open>"7d"\<close> when it is unset or empty) with which the module loads, the renewal cookie
  set by a successful login has as its \<^verbatim>\<open>maxAge\<close> the output of the duration parser
  for that same string, in milliseconds; and the token in the cookie is signed with that
  same string as its lifetime, so the two never drift.
\<close>

theorem login_cookie_maxAge:
  "load_module env = Inr M \<and> customLogin M w c = Inr (w', c') \<and>
   response c' = Some (SessionBody a u) \<longrightarrow>
     (\<exists>ck payload.
        set_cookies c' = set_cookies c @ [ck] \<and>
        name ck = REFRESH_COOKIE_NAME \<and>
        parseExpiresToMs (or_default (REFRESH_TOKEN_EXPIRES env) ''7d'') = Inr (maxAge ck) \<and>
        jwt_sign payload (REFRESH_SECRET M)
            (or_default (REFRESH_TOKEN_EXPIRES env) ''7d'') (clock w) = Inr (val ck))"
proof
  assume h: "load_module env = Inr M \<and> customLogin M w c = Inr (w', c') \<and>
   response c' = Some (SessionBody a u)"
  then have m: "load_module env = Inr M" and l: "customLogin M w c = Inr (w', c')"
    and r: "response c' = Some (SessionBody a u)" by simp_all
  from customLogin_success [OF l r] obtain row where
    js: "jwt_sign [(''id'', property row ''id''), (''type'', JStr ''refresh'')]
               (REFRESH_SECRET M) (REFRESH_EXPIRES_IN M) (clock w) =
             Inr (Signed [(''id'', property row ''id''), (''type'', JStr ''refresh'')]
                    (REFRESH_SECRET M) (clock w + lifetime_seconds (REFRESH_EXPIRES_IN M)))"
    and ck: "set_cookies c' = set_cookies c @
             [\<lparr>name = REFRESH_COOKIE_NAME,
               val = Signed [(''id'', property row ''id''), (''type'', JStr ''refresh'')]
                       (REFRESH_SECRET M) (clock w + lifetime_seconds (REFRESH_EXPIRES_IN M)),
               httpOnly = True, secure_flag = isHttps (request c),
               sameSite = (if isHttps (request c) then ''none'' else ''lax''),
               path = ''/'', maxAge = refreshMaxAge M\<rparr>]"
    by (elim exE conjE) (rule that)
  show "\<exists>ck payload.
        set_cookies c' = set_cookies c @ [ck] \<and>
        name ck = REFRESH_COOKIE_NAME \<and>
        parseExpiresToMs (or_default (REFRESH_TOKEN_EXPIRES env) ''7d'') = Inr (maxAge ck) \<and>
        jwt_sign payload (REFRESH_SECRET M)
            (or_default (REFRESH_TOKEN_EXPIRES env) ''7d'') (clock w) = Inr (val ck)"
    using ck js load_module_Inr(3,4) [OF m]
    by (intro exI [of _ "\<lparr>name = REFRESH_COOKIE_NAME,
               val = Signed [(''id'', property row ''id''), (''type'', JStr ''refresh'')]
                       (REFRESH_SECRET M) (clock w + lifetime_seconds (REFRESH_EXPIRES_IN M)),
               httpOnly = True, secure_flag = isHttps (request c),
               sameSite = (if isHttps (request c) then ''none'' else ''lax''),
               path = ''/'', maxAge = refreshMaxAge M\<rparr>"]
        exI [of _ "[(''id'', property row ''id''), (''type'', JStr ''refresh'')]"]) simp
qed

theorem login_cookie_maxAge_witness:
  "load_module env0 = Inr module0 \<and>
   parseExpiresToMs ''7d'' = Inr (Fin 604800000) \<and>
   (\<exists>w' c' ck.
      customLogin module0 world0 (ctx0 (request0 (Some ''alice'') (Some ''wonderland'') []))
        = Inr (w', c') \<and>
      set_cookies c' = [ck] \<and> name ck = ''refreshToken'' \<and> maxAge ck = Fin 604800000)"
proof -
  let ?c = "ctx0 (request0 (Some ''alice'') (Some ''wonderland'') [])"
  obtain w' c' where l: "customLogin module0 world0 ?c = Inr (w', c')"
    and r: "response c' = Some (SessionBody ''access:15m'' (Some 1))"
    using login_alice by simp
  from login_cookie_maxAge [of env0 module0 world0 ?c w' c' "''access:15m''" "Some 1",
      THEN mp, OF conjI, OF load_module0 conjI, OF l r]
  obtain ck payload where e:
    "set_cookies c' = set_cookies ?c @ [ck] \<and>
     name ck = REFRESH_COOKIE_NAME \<and>
     parseExpiresToMs (or_default (REFRESH_TOKEN_EXPIRES env0) ''7d'') = Inr (maxAge ck) \<and>
     jwt_sign payload (REFRESH_SECRET module0)
         (or_default (REFRESH_TOKEN_EXPIRES env0) ''7d'') (clock world0) = Inr (val ck)"
    by (elim exE) (rule that)
  then have 1: "set_cookies c' = [ck]" and 2: "name ck = ''refreshToken''"
    and 3: "parseExpiresToMs ''7d'' = Inr (maxAge ck)"
    by (simp_all add: ctx0_def REFRESH_COOKIE_NAME_def env0_def or_default_def)
  from 3 have 4: "maxAge ck = Fin 604800000" by (simp add: parse_7d)
  have "\<exists>w' c' ck.
      customLogin module0 world0 ?c = Inr (w', c') \<and>
      set_cookies c' = [ck] \<and> name ck = ''refreshToken'' \<and> maxAge ck = Fin 604800000"
    using l 1 2 4 by (intro exI [of _ w'] exI [of _ c'] exI [of _ ck]) simp
  with load_module0 3 4 show ?thesis by simp
qed

lemma login_messages_equal: "msg_unknown_identifier = msg_wrong_password"
  by (simp add: msg_unknown_identifier_def msg_wrong_password_def)

text \<open>
  C5 (as amended). For every identifier and password that are both supplied and
  non-empty, a login attempt with an unregistered identifier and a login attempt with a
  registered identifier but a wrong password both return an unauthorized outcome with
  exactly the same message text, and neither sets a cookie, so the two failure causes are
  indistinguishable to the caller. When the identifier or the password is missing or
  empty, the attempt is answered with the bad-request outcome before any lookup, whether
  or not the identifier is registered.
\<close>

theorem login_failures_indistinguishable:
  "(\<not> falsy (body_identifier (request c1)) \<and> \<not> falsy (body_password (request c1)) \<and>
    find (where_identifier (str (body_identifier (request c1)))) (users w) = None \<and>
    \<not> falsy (body_identifier (request c2)) \<and> \<not> falsy (body_password (request c2)) \<and>
    find (where_identifier (str (body_identifier (request c2)))) (users w) = Some row \<and>
    \<not> validatePassword w (str (body_password (request c2))) (property row ''password'') \<longrightarrow>
      written (customLogin M w c1) = Some (Unauthorized msg_unknown_identifier) \<and>
      written (customLogin M w c2) = Some (Unauthorized msg_wrong_password) \<and>
      msg_unknown_identifier = msg_wrong_password \<and>
      written (customLogin M w c1) = written (customLogin M w c2) \<and>
      cookies_after (customLogin M w c1) = set_cookies c1 \<and>
      cookies_after (customLogin M w c2) = set_cookies c2) \<and>
   (falsy (body_identifier (request c)) \<or> falsy (body_password (request c)) \<longrightarrow>
      written (customLogin M w c) = Some (BadRequest msg_required) \<and>
      cookies_after (customLogin M w c) = set_cookies c)"
  by (simp add: customLogin_result Let_def written_def cookies_after_def unauthorized_def
      badRequest_def login_messages_equal)

theorem login_failures_indistinguishable_witness:
  "written (customLogin module0 world0 (ctx0 (request0 (Some ''ghost'') (Some ''wonderland'') [])))
     = Some (Unauthorized msg_unknown_identifier) \<and>
   written (customLogin module0 world0 (ctx0 (request0 (Some ''alice'') (Some ''looking-glass'') [])))
     = Some (Unauthorized msg_unknown_identifier) \<and>
   written (customLogin module0 world0 (ctx0 (request0 None (Some ''wonderland'') [])))
     = Some (BadRequest msg_required)"
proof -
  let ?c1 = "ctx0 (request0 (Some ''ghost'') (Some ''wonderland'') [])"
  let ?c2 = "ctx0 (request0 (Some ''alice'') (Some ''looking-glass'') [])"
  let ?c3 = "ctx0 (request0 None (Some ''wonderland'') [])"
  note t = login_failures_indistinguishable [of ?c1 world0 ?c2 alice module0 ?c3]
  have h: "\<not> falsy (body_identifier (request ?c1)) \<and> \<not> falsy (body_password (request ?c1)) \<and>
    find (where_identifier (str (body_identifier (request ?c1)))) (users world0) = None \<and>
    \<not> falsy (body_identifier (request ?c2)) \<and> \<not> falsy (body_password (request ?c2)) \<and>
    find (where_identifier (str (body_identifier (request ?c2)))) (users world0) = Some alice \<and>
    \<not> validatePassword world0 (str (body_password (request ?c2))) (property alice ''password'')"
    by (simp add: ctx0_def request0_def falsy_def str_def world0_def where_identifier_def
        alice_def property_def)
  have g: "falsy (body_identifier (request ?c3)) \<or> falsy (body_password (request ?c3))"
    by (simp add: ctx0_def request0_def falsy_def)
  from t [THEN conjunct1, THEN mp, OF h] t [THEN conjunct2, THEN mp, OF g]
  show ?thesis by simp
qed

text \<open>
  The claim as the specification states it, for every identifier and password, fails on
  the empty password: the required-field check of line 127 answers first, so the attempt
  with the unregistered identifier \<open>ghost\<close> and the attempt with the registered
  identifier \<open>alice\<close> and the wrong password \<open>''\<close> both get the bad-request outcome,
  not the unauthorized one.
\<close>

theorem login_empty_password_counterexample:
  "find (where_identifier ''ghost'') (users world0) = None \<and>
   written (customLogin module0 world0 (ctx0 (request0 (Some ''ghost'') (Some '''') [])))
     = Some (BadRequest msg_required) \<and>
   find (where_identifier ''alice'') (users world0) = Some alice \<and>
   \<not> validatePassword world0 '''' (property alice ''password'') \<and>
   written (customLogin module0 world0 (ctx0 (request0 (Some ''alice'') (Some '''') [])))
     = Some (BadRequest msg_required) \<and>
   BadRequest msg_required \<noteq> Unauthorized msg_unknown_identifier"
  by (simp add: customLogin_result Let_def written_def badRequest_def ctx0_def request0_def
      falsy_def world0_def where_identifier_def alice_def property_def)

section \<open>Exceptions in the handlers\<close>









section \<open>Renewal leaves the cookie alone\<close>

text \<open>
  C7. The renew operation never modifies the renewal cookie: for every request, whether
  it succeeds or fails, it returns a context that differs from the one it received in
  the response alone. It sets no cookie (so it issues no renewal token and extends no
  max-age) and leaves the request, with its cookie, as it was.
\<close>

theorem refreshToken_leaves_cookie:
  "\<exists>w' c'. refreshToken M w c = Inr (w', c') \<and>
      set_cookies c' = set_cookies c \<and>
      request c' = request c \<and>
      c' = c\<lparr>response := response c'\<rparr> \<and>
      cookies_after (refreshToken M w c) = set_cookies c"
  by (simp add: refreshToken_result Let_def unauthorized_def set_body_def cookies_after_def
      split: option.splits sum.splits)

theorem refreshToken_leaves_cookie_witness:
  "cookies_after (refreshToken module0 world0
      (ctx0 (request0 None None [(''refreshToken'', alice_token)]))) = [] \<and>
   cookies_after (refreshToken module0 world0 (ctx0 (request0 None None []))) = []"
proof -
  from refreshToken_leaves_cookie
    [of module0 world0 "ctx0 (request0 None None [(''refreshToken'', alice_token)])"]
  have 1: "cookies_after (refreshToken module0 world0
      (ctx0 (request0 None None [(''refreshToken'', alice_token)]))) = []"
    by (auto simp: ctx0_def)
  from refreshToken_leaves_cookie [of module0 world0 "ctx0 (request0 None None [])"]
  have 2: "cookies_after (refreshToken module0 world0 (ctx0 (request0 None None []))) = []"
    by (auto simp: ctx0_def)
  from 1 2 show ?thesis by (intro conjI)
qed

section \<open>Terminating a session\<close>

text \<open>
  C8. For every request, with or without a session cookie, the logout operation returns
  the acknowledgement \<^verbatim>\<open>{ok: true}\<close> and sets one cookie: the name \<^verbatim>\<open>refreshToken\<close>,
  the empty value, \<^verbatim>\<open>maxAge\<close> 0, and the attributes \<^verbatim>\<open>httpOnly\<close>, \<^verbatim>\<open>path\<close>,
  \<^verbatim>\<open>secure\<close> and \<^verbatim>\<open>sameSite\<close> computed as at login: the cookie a successful login sets
  on a request of the same transport security is that cookie once its value is emptied
  and its \<^verbatim>\<open>maxAge\<close> set to 0.
\<close>

theorem logout_clears_cookie:
  "(\<exists>w'. logout M w c =
      Inr (w', c\<lparr>set_cookies := set_cookies c @
                    [\<lparr>name = ''refreshToken'', val = Opaque [], httpOnly = True,
                      secure_flag = isHttps (request c),
                      sameSite = (if isHttps (request c) then ''none'' else ''lax''),
                      path = ''/'', maxAge = Fin 0\<rparr>],
                  response := Some OkBody\<rparr>)) \<and>
   (customLogin M w2 c2 = Inr (w2', c2') \<and> response c2' = Some (SessionBody a u) \<and>
    isHttps (request c2) = isHttps (request c) \<longrightarrow>
      (\<exists>ck. set_cookies c2' = set_cookies c2 @ [ck] \<and>
         ck\<lparr>val := Opaque [], maxAge := Fin 0\<rparr> =
           \<lparr>name = ''refreshToken'', val = Opaque [], httpOnly = True,
            secure_flag = isHttps (request c),
            sameSite = (if isHttps (request c) then ''none'' else ''lax''),
            path = ''/'', maxAge = Fin 0\<rparr>))"
proof (intro conjI impI)
  show "\<exists>w'. logout M w c =
      Inr (w', c\<lparr>set_cookies := set_cookies c @
                    [\<lparr>name = ''refreshToken'', val = Opaque [], httpOnly = True,
                      secure_flag = isHttps (request c),
                      sameSite = (if isHttps (request c) then ''none'' else ''lax''),
                      path = ''/'', maxAge = Fin 0\<rparr>],
                  response := Some OkBody\<rparr>)"
    by (simp add: logout_result)
next
  assume h: "customLogin M w2 c2 = Inr (w2', c2') \<and> response c2' = Some (SessionBody a u) \<and>
    isHttps (request c2) = isHttps (request c)"
  then have l: "customLogin M w2 c2 = Inr (w2', c2')"
    and r: "response c2' = Some (SessionBody a u)"
    and s: "isHttps (request c2) = isHttps (request c)" by simp_all
  from customLogin_success [OF l r] obtain row where
    ck: "set_cookies c2' = set_cookies c2 @
             [\<lparr>name = REFRESH_COOKIE_NAME,
               val = Signed [(''id'', property row ''id''), (''type'', JStr ''refresh'')]
                       (REFRESH_SECRET M) (clock w2 + lifetime_seconds (REFRESH_EXPIRES_IN M)),
               httpOnly = True, secure_flag = isHttps (request c2),
               sameSite = (if isHttps (request c2) then ''none'' else ''lax''),
               path = ''/'', maxAge = refreshMaxAge M\<rparr>]"
    by (elim exE conjE) (rule that)
  show "\<exists>ck. set_cookies c2' = set_cookies c2 @ [ck] \<and>
         ck\<lparr>val := Opaque [], maxAge := Fin 0\<rparr> =
           \<lparr>name = ''refreshToken'', val = Opaque [], httpOnly = True,
            secure_flag = isHttps (request c),
            sameSite = (if isHttps (request c) then ''none'' else ''lax''),
            path = ''/'', maxAge = Fin 0\<rparr>"
    unfolding ck s by (simp add: REFRESH_COOKIE_NAME_def)
qed

theorem logout_clears_cookie_witness:
  "(\<exists>w'. logout module0 world0 (ctx0 (request0 None None [])) =
      Inr (w', \<lparr>request = request0 None None [], response = Some OkBody,
                set_cookies =
                  [\<lparr>name = ''refreshToken'', val = Opaque [], httpOnly = True,
                    secure_flag = True, sameSite = ''none'', path = ''/'',
                    maxAge = Fin 0\<rparr>]\<rparr>)) \<and>
   (\<exists>w' c' ck.
      customLogin module0 world0 (ctx0 (request0 (Some ''alice'') (Some ''wonderland'') []))
        = Inr (w', c') \<and>
      set_cookies c' = [ck] \<and>
      name ck = ''refreshToken'' \<and> httpOnly ck \<and> secure_flag ck \<and> sameSite ck = ''none'' \<and>
      path ck = ''/'')"
proof -
  let ?o = "ctx0 (request0 None None [])"
  let ?c = "ctx0 (request0 (Some ''alice'') (Some ''wonderland'') [])"
  obtain w' c' where l: "customLogin module0 world0 ?c = Inr (w', c')"
    and r: "response c' = Some (SessionBody ''access:15m'' (Some 1))"
    using login_alice by simp
  have s: "isHttps (request ?c) = isHttps (request ?o)"
    by (simp add: ctx0_def request0_def isHttps_def)
  have o: "isHttps (request ?o)" by (simp add: ctx0_def request0_def isHttps_def)
  note t = logout_clears_cookie [of module0 world0 ?o world0 ?c w' c' "''access:15m''" "Some 1"]
  from t [THEN conjunct1] have 1:
    "\<exists>w'. logout module0 world0 ?o =
      Inr (w', \<lparr>request = request0 None None [], response = Some OkBody,
                set_cookies =
                  [\<lparr>name = ''refreshToken'', val = Opaque [], httpOnly = True,
                    secure_flag = True, sameSite = ''none'', path = ''/'',
                    maxAge = Fin 0\<rparr>]\<rparr>)"
    using o by (simp add: ctx0_def)
  from t [THEN conjunct2, THEN mp, OF conjI, OF l conjI, OF r s]
  obtain ck where e: "set_cookies c' = set_cookies ?c @ [ck] \<and>
         ck\<lparr>val := Opaque [], maxAge := Fin 0\<rparr> =
           \<lparr>name = ''refreshToken'', val = Opaque [], httpOnly = True,
            secure_flag = isHttps (request ?o),
            sameSite = (if isHttps (request ?o) then ''none'' else ''lax''),
            path = ''/'', maxAge = Fin 0\<rparr>"
    by (elim exE) (rule that)
  then have sc: "set_cookies c' = [ck]" by (simp add: ctx0_def)
  from e have eq: "ck\<lparr>val := Opaque [], maxAge := Fin 0\<rparr> =
           \<lparr>name = ''refreshToken'', val = Opaque [], httpOnly = True,
            secure_flag = True, sameSite = ''none'', path = ''/'', maxAge = Fin 0\<rparr>"
    using o by simp
  have f: "name ck = ''refreshToken''" "httpOnly ck" "secure_flag ck" "sameSite ck = ''none''"
    "path ck = ''/''"
    using arg_cong [OF eq, of name] arg_cong [OF eq, of httpOnly] arg_cong [OF eq, of secure_flag]
      arg_cong [OF eq, of sameSite] arg_cong [OF eq, of path]
    by simp_all
  have 2: "\<exists>w' c' ck.
      customLogin module0 world0 ?c = Inr (w', c') \<and>
      set_cookies c' = [ck] \<and>
      name ck = ''refreshToken'' \<and> httpOnly ck \<and> secure_flag ck \<and> sameSite ck = ''none'' \<and>
      path ck = ''/''"
    using l sc f by (intro exI [of _ w'] exI [of _ c'] exI [of _ ck]) simp
  from 1 2 show ?thesis by (intro conjI)
qed

section \<open>Detecting transport security\<close>

text \<open>
  C9. For every request the transport security detector is true if and only if the
  declared protocol is \<^verbatim>\<open>"https"\<close> or the connection-is-secure signal is true: protocol
  \<^verbatim>\<open>"https"\<close> with secure false gives true, protocol \<^verbatim>\<open>"http"\<close> with secure true gives
  true, and \<^verbatim>\<open>"http"\<close> with secure false gives false. Both places that compute it, logout
  and login, give the cookie that value as its \<^verbatim>\<open>secure\<close> flag and \<^verbatim>\<open>sameSite\<close>
  \<^verbatim>\<open>none\<close> or \<^verbatim>\<open>lax\<close> accordingly.
\<close>

theorem isHttps_detects:
  "(isHttps rq \<longleftrightarrow> protocol rq = ''https'' \<or> secure rq) \<and>
   isHttps (rq\<lparr>protocol := ''https'', secure := False\<rparr>) \<and>
   isHttps (rq\<lparr>protocol := ''http'', secure := True\<rparr>) \<and>
   \<not> isHttps (rq\<lparr>protocol := ''http'', secure := False\<rparr>) \<and>
   (\<exists>ck. cookies_after (logout M w c) = set_cookies c @ [ck] \<and>
      secure_flag ck = (protocol (request c) = ''https'' \<or> secure (request c)) \<and>
      sameSite ck =
        (if protocol (request c) = ''https'' \<or> secure (request c) then ''none'' else ''lax'')) \<and>
   (customLogin M w c = Inr (w', c') \<and> response c' = Some (SessionBody a u) \<longrightarrow>
      (\<exists>ck. set_cookies c' = set_cookies c @ [ck] \<and>
         secure_flag ck = (protocol (request c) = ''https'' \<or> secure (request c)) \<and>
         sameSite ck =
           (if protocol (request c) = ''https'' \<or> secure (request c) then ''none''
            else ''lax'')))"
proof (intro conjI impI)
  show "isHttps rq \<longleftrightarrow> protocol rq = ''https'' \<or> secure rq" by (simp add: isHttps_def)
  show "isHttps (rq\<lparr>protocol := ''https'', secure := False\<rparr>)" by (simp add: isHttps_def)
  show "isHttps (rq\<lparr>protocol := ''http'', secure := True\<rparr>)" by (simp add: isHttps_def)
  show "\<not> isHttps (rq\<lparr>protocol := ''http'', secure := False\<rparr>)" by (simp add: isHttps_def)
  show "\<exists>ck. cookies_after (logout M w c) = set_cookies c @ [ck] \<and>
      secure_flag ck = (protocol (request c) = ''https'' \<or> secure (request c)) \<and>
      sameSite ck =
        (if protocol (request c) = ''https'' \<or> secure (request c) then ''none'' else ''lax'')"
    by (simp add: logout_result cookies_after_def isHttps_def)
next
  assume "customLogin M w c = Inr (w', c') \<and> response c' = Some (SessionBody a u)"
  then have l: "customLogin M w c = Inr (w', c')"
    and r: "response c' = Some (SessionBody a u)" by simp_all
  from customLogin_success [OF l r] obtain row where
    ck: "set_cookies c' = set_cookies c @
             [\<lparr>name = REFRESH_COOKIE_NAME,
               val = Signed [(''id'', property row ''id''), (''type'', JStr ''refresh'')]
                       (REFRESH_SECRET M) (clock w + lifetime_seconds (REFRESH_EXPIRES_IN M)),
               httpOnly = True, secure_flag = isHttps (request c),
               sameSite = (if isHttps (request c) then ''none'' else ''lax''),
               path = ''/'', maxAge = refreshMaxAge M\<rparr>]"
    by (elim exE conjE) (rule that)
  show "\<exists>ck. set_cookies c' = set_cookies c @ [ck] \<and>
         secure_flag ck = (protocol (request c) = ''https'' \<or> secure (request c)) \<and>
         sameSite ck =
           (if protocol (request c) = ''https'' \<or> secure (request c) then ''none''
            else ''lax'')"
    unfolding ck by (simp add: isHttps_def)
qed

theorem isHttps_detects_witness:
  "isHttps (request0 None None []) \<and>
   (\<exists>w' c' ck.
      customLogin module0 world0 (ctx0 (request0 (Some ''alice'') (Some ''wonderland'') []))
        = Inr (w', c') \<and>
      set_cookies c' = [ck] \<and> secure_flag ck \<and> sameSite ck = ''none'')"
proof -
  let ?c = "ctx0 (request0 (Some ''alice'') (Some ''wonderland'') [])"
  obtain w' c' where l: "customLogin module0 world0 ?c = Inr (w', c')"
    and r: "response c' = Some (SessionBody ''access:15m'' (Some 1))"
    using login_alice by simp
  note t = isHttps_detects
    [of "request0 None None []" module0 world0 ?c w' c' "''access:15m''" "Some 1"]
  from t [THEN conjunct1] have 1: "isHttps (request0 None None [])"
    by (simp add: request0_def)
  from t [THEN conjunct2, THEN conjunct2, THEN conjunct2, THEN conjunct2, THEN conjunct2,
      THEN mp, OF conjI, OF l r]
  obtain ck where e: "set_cookies c' = set_cookies ?c @ [ck] \<and>
         secure_flag ck = (protocol (request ?c) = ''https'' \<or> secure (request ?c)) \<and>
         sameSite ck =
           (if protocol (request ?c) = ''https'' \<or> secure (request ?c) then ''none''
            else ''lax'')"
    by (elim exE) (rule that)
  then have "set_cookies c' = [ck]" "secure_flag ck" "sameSite ck = ''none''"
    by (simp_all add: ctx0_def request0_def)
  with l have 2: "\<exists>w' c' ck.
      customLogin module0 world0 ?c = Inr (w', c') \<and>
      set_cookies c' = [ck] \<and> secure_flag ck \<and> sameSite ck = ''none''"
    by (intro exI [of _ w'] exI [of _ c'] exI [of _ ck]) simp
  from 1 2 show ?thesis by (intro conjI)
qed

section \<open>From login to renewal\<close>

lemma find_where_id:
  assumes "find (where_id v) rows = Some row"
  shows "property row ''id'' = v"
proof -
  from assms have "where_id v row" by (auto simp: find_Some_iff)
  then show ?thesis by (simp add: where_id_def property_def)
qed

text \<open>
  C10. Round trip between login and renewal: for every user, the renewal token a
  successful login mints (its payload carries the id of that user and the purpose marker
  \<^verbatim>\<open>type: "refresh"\<close>, it is signed with the renewal secret and expires after the
  configured lifetime), when presented in the cookie to the renew operation at any time
  before its expiry under the same secret, passes the signature verification and the
  purpose check and yields the original user id: the renew operation looks up that id,
  answers that the user does not exist when it is gone, and otherwise succeeds with an
  access token issued for that id.
\<close>

theorem login_refresh_roundtrip:
  "customLogin M w c = Inr (w', c') \<and> response c' = Some (SessionBody a u) \<longrightarrow>
     (\<exists>row ck exp.
        find (where_identifier (str (body_identifier (request c)))) (users w) = Some row \<and>
        set_cookies c' = set_cookies c @ [ck] \<and>
        name ck = REFRESH_COOKIE_NAME \<and>
        val ck = Signed [(''id'', property row ''id''), (''type'', JStr ''refresh'')]
                   (REFRESH_SECRET M) exp \<and>
        exp = clock w + lifetime_seconds (REFRESH_EXPIRES_IN M) \<and>
        (\<forall>w2 c2.
           cookies_get c2 REFRESH_COOKIE_NAME = Some (val ck) \<and> clock w2 < exp \<longrightarrow>
             (\<exists>payload.
                jwt_verify (val ck) (REFRESH_SECRET M) (clock w2) = Inr payload \<and>
                property payload ''type'' = JStr ''refresh'' \<and>
                property payload ''id'' = property row ''id'') \<and>
             (find (where_id (property row ''id'')) (users w2) = None \<longrightarrow>
                written (refreshToken M w2 c2) = Some (Unauthorized msg_no_user)) \<and>
             (\<forall>row2. find (where_id (property row ''id'')) (users w2) = Some row2 \<longrightarrow>
                property row2 ''id'' = property row ''id'' \<and>
                (\<exists>s. written (refreshToken M w2 c2) =
                   Some (SessionBody
                           (jwt_issue w2 [(''id'', property row ''id'')]
                              (ACCESS_EXPIRES_IN M) (clock w2))
                           (Some s))))))"
proof
  assume "customLogin M w c = Inr (w', c') \<and> response c' = Some (SessionBody a u)"
  then have l: "customLogin M w c = Inr (w', c')"
    and r: "response c' = Some (SessionBody a u)" by simp_all
  from customLogin_success [OF l r] obtain row where
    f: "find (where_identifier (str (body_identifier (request c)))) (users w) = Some row"
    and ck: "set_cookies c' = set_cookies c @
             [\<lparr>name = REFRESH_COOKIE_NAME,
               val = Signed [(''id'', property row ''id''), (''type'', JStr ''refresh'')]
                       (REFRESH_SECRET M) (clock w + lifetime_seconds (REFRESH_EXPIRES_IN M)),
               httpOnly = True, secure_flag = isHttps (request c),
               sameSite = (if isHttps (request c) then ''none'' else ''lax''),
               path = ''/'', maxAge = refreshMaxAge M\<rparr>]"
    by (elim exE conjE) (rule that)
  let ?payload = "[(''id'', property row ''id''), (''type'', JStr ''refresh'')]"
  let ?exp = "clock w + lifetime_seconds (REFRESH_EXPIRES_IN M)"
  let ?tok = "Signed ?payload (REFRESH_SECRET M) ?exp"
  let ?ck = "\<lparr>name = REFRESH_COOKIE_NAME, val = ?tok,
               httpOnly = True, secure_flag = isHttps (request c),
               sameSite = (if isHttps (request c) then ''none'' else ''lax''),
               path = ''/'', maxAge = refreshMaxAge M\<rparr>"
  have later: "(\<exists>payload.
                jwt_verify ?tok (REFRESH_SECRET M) (clock w2) = Inr payload \<and>
                property payload ''type'' = JStr ''refresh'' \<and>
                property payload ''id'' = property row ''id'') \<and>
             (find (where_id (property row ''id'')) (users w2) = None \<longrightarrow>
                written (refreshToken M w2 c2) = Some (Unauthorized msg_no_user)) \<and>
             (\<forall>row2. find (where_id (property row ''id'')) (users w2) = Some row2 \<longrightarrow>
                property row2 ''id'' = property row ''id'' \<and>
                (\<exists>s. written (refreshToken M w2 c2) =
                   Some (SessionBody
                           (jwt_issue w2 [(''id'', property row ''id'')]
                              (ACCESS_EXPIRES_IN M) (clock w2))
                           (Some s))))"
    if g: "cookies_get c2 REFRESH_COOKIE_NAME = Some ?tok" and t: "clock w2 < ?exp" for w2 c2
  proof -
    have v: "jwt_verify ?tok (REFRESH_SECRET M) (clock w2) = Inr ?payload"
      using t by (simp add: jwt_verify_def)
    have p: "property ?payload ''type'' = JStr ''refresh''"
      "property ?payload ''id'' = property row ''id''"
      by (simp_all add: property_def)
    have n: "\<not> no_token (cookies_get c2 REFRESH_COOKIE_NAME)"
      "tok (cookies_get c2 REFRESH_COOKIE_NAME) = ?tok"
      by (simp_all add: g no_token_def tok_def)
    have none: "written (refreshToken M w2 c2) = Some (Unauthorized msg_no_user)"
      if "find (where_id (property row ''id'')) (users w2) = None"
      using that n v p
      by (simp add: refreshToken_result Let_def written_def unauthorized_def)
    have some: "property row2 ''id'' = property row ''id'' \<and>
                (\<exists>s. written (refreshToken M w2 c2) =
                   Some (SessionBody
                           (jwt_issue w2 [(''id'', property row ''id'')]
                              (ACCESS_EXPIRES_IN M) (clock w2))
                           (Some s)))"
      if h: "find (where_id (property row ''id'')) (users w2) = Some row2" for row2
    proof -
      have i: "property row2 ''id'' = property row ''id''" using h by (rule find_where_id)
      show ?thesis
        using h n v p i
        by (simp add: refreshToken_result Let_def written_def set_body_def)
    qed
    from v p none some show ?thesis by blast
  qed
  have sc: "set_cookies c' = set_cookies c @ [?ck]" using ck by simp
  have all: "\<forall>w2 c2.
           cookies_get c2 REFRESH_COOKIE_NAME = Some ?tok \<and> clock w2 < ?exp \<longrightarrow>
             (\<exists>payload.
                jwt_verify ?tok (REFRESH_SECRET M) (clock w2) = Inr payload \<and>
                property payload ''type'' = JStr ''refresh'' \<and>
                property payload ''id'' = property row ''id'') \<and>
             (find (where_id (property row ''id'')) (users w2) = None \<longrightarrow>
                written (refreshToken M w2 c2) = Some (Unauthorized msg_no_user)) \<and>
             (\<forall>row2. find (where_id (property row ''id'')) (users w2) = Some row2 \<longrightarrow>
                property row2 ''id'' = property row ''id'' \<and>
                (\<exists>s. written (refreshToken M w2 c2) =
                   Some (SessionBody
                           (jwt_issue w2 [(''id'', property row ''id'')]
                              (ACCESS_EXPIRES_IN M) (clock w2))
                           (Some s))))"
    by (intro allI impI, elim conjE, rule later)
  have "find (where_identifier (str (body_identifier (request c)))) (users w) = Some row \<and>
        set_cookies c' = set_cookies c @ [?ck] \<and>
        name ?ck = REFRESH_COOKIE_NAME \<and>
        val ?ck = Signed ?payload (REFRESH_SECRET M) ?exp \<and>
        ?exp = clock w + lifetime_seconds (REFRESH_EXPIRES_IN M) \<and>
        (\<forall>w2 c2.
           cookies_get c2 REFRESH_COOKIE_NAME = Some (val ?ck) \<and> clock w2 < ?exp \<longrightarrow>
             (\<exists>payload.
                jwt_verify (val ?ck) (REFRESH_SECRET M) (clock w2) = Inr payload \<and>
                property payload ''type'' = JStr ''refresh'' \<and>
                property payload ''id'' = property row ''id'') \<and>
             (find (where_id (property row ''id'')) (users w2) = None \<longrightarrow>
                written (refreshToken M w2 c2) = Some (Unauthorized msg_no_user)) \<and>
             (\<forall>row2. find (where_id (property row ''id'')) (users w2) = Some row2 \<longrightarrow>
                property row2 ''id'' = property row ''id'' \<and>
                (\<exists>s. written (refreshToken M w2 c2) =
                   Some (SessionBody
                           (jwt_issue w2 [(''id'', property row ''id'')]
                              (ACCESS_EXPIRES_IN M) (clock w2))
                           (Some s)))))"
    unfolding cookie.select_convs by (intro conjI f sc refl all)
  then show "\<exists>row ck exp.
        find (where_identifier (str (body_identifier (request c)))) (users w) = Some row \<and>
        set_cookies c' = set_cookies c @ [ck] \<and>
        name ck = REFRESH_COOKIE_NAME \<and>
        val ck = Signed [(''id'', property row ''id''), (''type'', JStr ''refresh'')]
                   (REFRESH_SECRET M) exp \<and>
        exp = clock w + lifetime_seconds (REFRESH_EXPIRES_IN M) \<and>
        (\<forall>w2 c2.
           cookies_get c2 REFRESH_COOKIE_NAME = Some (val ck) \<and> clock w2 < exp \<longrightarrow>
             (\<exists>payload.
                jwt_verify (val ck) (REFRESH_SECRET M) (clock w2) = Inr payload \<and>
                property payload ''type'' = JStr ''refresh'' \<and>
                property payload ''id'' = property row ''id'') \<and>
             (find (where_id (property row ''id'')) (users w2) = None \<longrightarrow>
                written (refreshToken M w2 c2) = Some (Unauthorized msg_no_user)) \<and>
             (\<forall>row2. find (where_id (property row ''id'')) (users w2) = Some row2 \<longrightarrow>
                property row2 ''id'' = property row ''id'' \<and>
                (\<exists>s. written (refreshToken M w2 c2) =
                   Some (SessionBody
                           (jwt_issue w2 [(''id'', property row ''id'')]
                              (ACCESS_EXPIRES_IN M) (clock w2))
                           (Some s)))))"
    by (intro exI [of _ row] exI [of _ ?ck] exI [of _ ?exp])
qed

theorem login_refresh_roundtrip_witness:
  "\<exists>w' c' ck s.
     customLogin module0 world0 (ctx0 (request0 (Some ''alice'') (Some ''wonderland'') []))
       = Inr (w', c') \<and>
     set_cookies c' = [ck] \<and>
     val ck = alice_token \<and>
     jwt_verify (val ck) ''s3cret'' 5000 = Inr [(''id'', JNum 1), (''type'', JStr ''refresh'')] \<and>
     written (refreshToken module0 (world0\<lparr>clock := 5000\<rparr>)
                (ctx0 (request0 None None [(''refreshToken'', val ck)])))
       = Some (SessionBody ''access:15m'' (Some s))"
proof -
  let ?c = "ctx0 (request0 (Some ''alice'') (Some ''wonderland'') [])"
  let ?w2 = "world0\<lparr>clock := 5000\<rparr>"
  obtain w' c' where l: "customLogin module0 world0 ?c = Inr (w', c')"
    and r: "response c' = Some (SessionBody ''access:15m'' (Some 1))"
    using login_alice by simp
  from login_refresh_roundtrip
    [of module0 world0 ?c w' c' "''access:15m''" "Some 1", THEN mp, OF conjI, OF l r]
  obtain row ck exp where e:
    "find (where_identifier (str (body_identifier (request ?c)))) (users world0) = Some row \<and>
     set_cookies c' = set_cookies ?c @ [ck] \<and>
     name ck = REFRESH_COOKIE_NAME \<and>
     val ck = Signed [(''id'', property row ''id''), (''type'', JStr ''refresh'')]
                (REFRESH_SECRET module0) exp \<and>
     exp = clock world0 + lifetime_seconds (REFRESH_EXPIRES_IN module0) \<and>
     (\<forall>w2 c2.
        cookies_get c2 REFRESH_COOKIE_NAME = Some (val ck) \<and> clock w2 < exp \<longrightarrow>
          (\<exists>payload.
             jwt_verify (val ck) (REFRESH_SECRET module0) (clock w2) = Inr payload \<and>
             property payload ''type'' = JStr ''refresh'' \<and>
             property payload ''id'' = property row ''id'') \<and>
          (find (where_id (property row ''id'')) (users w2) = None \<longrightarrow>
             written (refreshToken module0 w2 c2) = Some (Unauthorized msg_no_user)) \<and>
          (\<forall>row2. find (where_id (property row ''id'')) (users w2) = Some row2 \<longrightarrow>
             property row2 ''id'' = property row ''id'' \<and>
             (\<exists>s. written (refreshToken module0 w2 c2) =
                Some (SessionBody
                        (jwt_issue w2 [(''id'', property row ''id'')]
                           (ACCESS_EXPIRES_IN module0) (clock w2))
                        (Some s)))))"
    by (elim exE) (rule that)
  let ?c2 = "ctx0 (request0 None None [(''refreshToken'', val ck)])"
  from e have f: "find (where_identifier (str (body_identifier (request ?c)))) (users world0)
                    = Some row" by (rule conjunct1)
  have row: "row = alice"
    using f by (simp add: ctx0_def request0_def str_def world0_def where_identifier_def alice_def)
  have ex: "exp = 605800"
    using e by (simp add: world0_def module0_def lifetime_7d)
  have sc: "set_cookies c' = [ck]" using e by (simp add: ctx0_def)
  have v: "val ck = alice_token"
    using e ex unfolding row
    by (simp add: alice_token_def module0_def property_def alice_def)
  have g: "cookies_get ?c2 REFRESH_COOKIE_NAME = Some (val ck) \<and> clock ?w2 < exp"
    by (simp add: ex cookies_get_def ctx0_def request0_def REFRESH_COOKIE_NAME_def)
  from e have "\<forall>w2 c2.
        cookies_get c2 REFRESH_COOKIE_NAME = Some (val ck) \<and> clock w2 < exp \<longrightarrow>
          (\<exists>payload.
             jwt_verify (val ck) (REFRESH_SECRET module0) (clock w2) = Inr payload \<and>
             property payload ''type'' = JStr ''refresh'' \<and>
             property payload ''id'' = property row ''id'') \<and>
          (find (where_id (property row ''id'')) (users w2) = None \<longrightarrow>
             written (refreshToken module0 w2 c2) = Some (Unauthorized msg_no_user)) \<and>
          (\<forall>row2. find (where_id (property row ''id'')) (users w2) = Some row2 \<longrightarrow>
             property row2 ''id'' = property row ''id'' \<and>
             (\<exists>s. written (refreshToken module0 w2 c2) =
                Some (SessionBody
                        (jwt_issue w2 [(''id'', property row ''id'')]
                           (ACCESS_EXPIRES_IN module0) (clock w2))
                        (Some s))))"
    by (elim conjE)
  from this [THEN spec, THEN spec, THEN mp, OF g]
  have rt: "\<forall>row2. find (where_id (property row ''id'')) (users ?w2) = Some row2 \<longrightarrow>
             property row2 ''id'' = property row ''id'' \<and>
             (\<exists>s. written (refreshToken module0 ?w2 ?c2) =
                Some (SessionBody
                        (jwt_issue ?w2 [(''id'', property row ''id'')]
                           (ACCESS_EXPIRES_IN module0) (clock ?w2))
                        (Some s)))"
    by (elim conjE)
  have fa: "find (where_id (property row ''id'')) (users ?w2) = Some alice"
    unfolding row by (simp add: world0_def where_id_def property_def alice_def)
  from rt [THEN spec, THEN mp, OF fa]
  obtain s where w: "written (refreshToken module0 ?w2 ?c2) =
                Some (SessionBody
                        (jwt_issue ?w2 [(''id'', property row ''id'')]
                           (ACCESS_EXPIRES_IN module0) (clock ?w2))
                        (Some s))"
    by (elim conjE exE) (rule that)
  then have w': "written (refreshToken module0 ?w2 ?c2) = Some (SessionBody ''access:15m'' (Some s))"
    by (simp add: world0_def module0_def)
  have jv: "jwt_verify (val ck) ''s3cret'' 5000 = Inr [(''id'', JNum 1), (''type'', JStr ''refresh'')]"
    unfolding v by (simp add: alice_token_def jwt_verify_def)
  show ?thesis
    using l sc v jv w' by (intro exI [of _ w'] exI [of _ c'] exI [of _ ck] exI [of _ s]) simp
qed

end
